theory Spec2Isabelle
  imports Main "HOL-Library.Word"
begin

section \<open>Data model of the supervisor's watcher\<close>

text \<open>
  The watcher (\<^verbatim>\<open>supervisor/watch/watcher.go\<close>) only copies floating point values, it
  never computes with them. A \<^verbatim>\<open>float64\<close> is therefore carried as its 64-bit pattern.
  A \<^verbatim>\<open>time.Time\<close> is a clock reading in nanoseconds, a \<^verbatim>\<open>time.Duration\<close> a signed
  64-bit count of nanoseconds held in an \<open>int\<close>, with the saturation of \<^verbatim>\<open>Time.Sub\<close>
  written out below.
\<close>

type_synonym float64 = "64 word"
type_synonym Time = int
type_synonym Duration = int

text \<open>\<^verbatim>\<open>proc.CPUPidUsage\<close>, as far as the watcher reads it.\<close>

record CPUPidUsage =
  User :: float64
  System :: float64
  Total :: float64

text \<open>\<^verbatim>\<open>systemd.SystemdUnitProps\<close>: the two fields the watcher reads (\<^verbatim>\<open>Name\<close>, \<^verbatim>\<open>Pid\<close>).\<close>

record SystemdUnitProps =
  PropsName :: string
  PropsPid :: "32 word"

record SystemdUnitStatus =
  Name :: string
  Pid :: "32 word"
  CPUUsage :: CPUPidUsage

text \<open>
  \<^verbatim>\<open>backend.BigQuerySchema\<close>: the fields the watcher writes. The field \<^verbatim>\<open>Name\<close> is
  called \<open>SchemaName\<close> here, since two records cannot share a field name.
\<close>

record BigQuerySchema =
  SchemaName :: string
  Timestamp :: Time
  UserCPU_Usage :: float64
  SystemCPU_Usage :: float64
  TotalCPU_Usage :: float64
  Hostname :: string
  Instance :: string

text \<open>
  \<^verbatim>\<open>strconv.Itoa\<close> on the value of \<^verbatim>\<open>int(s.Pid)\<close>, which is never negative where
  \<^verbatim>\<open>int\<close> has 64 bits: the decimal digits, most significant first.
\<close>

fun digits :: "nat \<Rightarrow> string" where
  "digits n =
     (if n < 10 then [''0123456789'' ! n]
      else digits (n div 10) @ [''0123456789'' ! (n mod 10)])"

definition Itoa :: "int \<Rightarrow> string" where
  "Itoa i = (if i < 0 then CHR ''-'' # digits (nat (- i)) else digits (nat i))"

text \<open>
  \<^verbatim>\<open>func (s *SystemdUnitStatus) ToBigQuerySchema()\<close>. The reading of \<^verbatim>\<open>time.Now()\<close> is
  the argument \<open>now\<close>; \<^verbatim>\<open>Hostname\<close> is not set by the conversion and keeps Go's zero
  value, the empty string.
\<close>

definition ToBigQuerySchema :: "SystemdUnitStatus \<Rightarrow> Time \<Rightarrow> BigQuerySchema" where
  "ToBigQuerySchema s now =
     \<lparr> SchemaName = Name s,
       Timestamp = now,
       UserCPU_Usage = User (CPUUsage s),
       SystemCPU_Usage = User (CPUUsage s),
       TotalCPU_Usage = Total (CPUUsage s),
       Hostname = [],
       Instance = Itoa (uint (Pid s)) \<rparr>"

section \<open>The batch uploader\<close>

text \<open>
  What the aggregator does to the outside is kept as a list of effects, oldest first:
  a batch handed to \<^verbatim>\<open>upload\<close>, a call of a sink's \<^verbatim>\<open>Put\<close> with the error it returned
  (\<open>None\<close> for \<^verbatim>\<open>nil\<close>), and the lines written through logrus. A Go \<^verbatim>\<open>error\<close> is
  carried as its message, the string that \<^verbatim>\<open>%s\<close> prints.
\<close>

datatype 'r effect =
    CallUpload "'r list"
  | CallPut string "'r list" "string option"
  | LogInfo string
  | LogError string
  | LogDebug string float64 float64 float64

text \<open>
  \<^verbatim>\<open>backend.Backend\<close>: an identifier and a \<^verbatim>\<open>Put\<close>. Whether a \<^verbatim>\<open>Put\<close> fails is up to
  the sink and may change from call to call, so \<^verbatim>\<open>Put\<close> reads and returns a state
  \<open>'w\<close> of the storage side. \<open>'r\<close> is \<^verbatim>\<open>backend.BigQueryRow\<close>.
\<close>

record ('r, 'w) Backend =
  ID :: string
  Put :: "'w \<Rightarrow> 'r list \<Rightarrow> string option \<times> 'w"

text \<open>
  \<^verbatim>\<open>func upload(ctx, items, backends) error\<close>: the result is the returned error, the
  storage state and the effects of the call.
\<close>

fun upload :: "'r list \<Rightarrow> ('r, 'w) Backend list \<Rightarrow> 'w \<Rightarrow> string option \<times> 'w \<times> 'r effect list" where
  "upload items [] w = (None, w, [])"
| "upload items (b # bs) w =
     (case Put b w items of
        (Some err, w') \<Rightarrow>
          (Some (''Error uploading to backend '' @ ID b @ '': '' @ err), w',
           [CallPut (ID b) items (Some err)])
      | (None, w') \<Rightarrow>
          (case upload items bs w' of
             (r, w'', evs) \<Rightarrow>
               (r, w'', CallPut (ID b) items None # LogInfo (''Uploaded to storage '' @ ID b) # evs)))"

section \<open>The result aggregator\<close>

text \<open>
  \<^verbatim>\<open>config.Config\<close> of the supervisor, as far as the watcher reads it. \<^verbatim>\<open>FlagBufferSize\<close>
  is a Go \<^verbatim>\<open>int\<close>, the others are durations.
\<close>

record config_Config =
  Wait :: Duration
  CPUUsageInterval :: Duration
  FlagBufferSize :: int
  UploadInterval :: Duration

text \<open>\<^verbatim>\<open>Time.Sub\<close> saturates at the ends of \<^verbatim>\<open>int64\<close>; \<^verbatim>\<open>time.Since(t)\<close> is \<^verbatim>\<open>Now().Sub(t)\<close>.\<close>

definition maxDuration :: Duration where
  "maxDuration = 2 ^ 63 - 1"

definition minDuration :: Duration where
  "minDuration = - (2 ^ 63)"

definition Sub :: "Time \<Rightarrow> Time \<Rightarrow> Duration" where
  "Sub t u =
     (if t - u > maxDuration then maxDuration
      else if t - u < minDuration then minDuration
      else t - u)"

definition Since :: "Time \<Rightarrow> Time \<Rightarrow> Duration" where
  "Since t now = Sub now t"

text \<open>
  One turn of the \<^verbatim>\<open>select\<close> of \<^verbatim>\<open>processResult\<close> takes one of its three cases. A
  received sample comes with the readings of the clock that the turn makes: in
  \<^verbatim>\<open>ToBigQuerySchema\<close>, in \<^verbatim>\<open>time.Since\<close>, and after a successful upload. A receive
  from the closed result channel yields \<^verbatim>\<open>nil\<close>, here \<open>None\<close>.
\<close>

record clock =
  atConvert :: Time
  atSince :: Time
  atReset :: Time

datatype select_in =
    CtxDone
  | EventIn BigQuerySchema
  | ResultIn "SystemdUnitStatus option" clock

text \<open>The variables of the loop, the state of the sinks, and the effects so far.\<close>

record ('r, 'w) agg_state =
  rows :: "'r list"
  updateTime :: Time
  sinks :: 'w
  trace :: "'r effect list"

text \<open>
  How a loop stands: still running, returned, blocked for good, or stopped by a panic.
\<close>

datatype panic = NilDereference | CloseOfClosedChannel | SendOnClosedChannel

datatype 's outcome = Running 's | Returned 's | Blocked 's | Panicked panic 's

text \<open>
  The body of the \<^verbatim>\<open>for\<close> loop of \<^verbatim>\<open>processResult\<close>. \<open>toRow\<close> is the method
  \<^verbatim>\<open>ToBigQueryRow\<close> of \<^verbatim>\<open>BigQuerySchema\<close> in the backend package. An event is never
  \<^verbatim>\<open>nil\<close>; with a \<^verbatim>\<open>nil\<close> result the arguments of the \<^verbatim>\<open>Debugf\<close> dereference it. The
  \<^verbatim>\<open>Debugf\<close> line is kept among the effects whatever the level of the logger is. \<^verbatim>\<open>ctx\<close> is
  only handed on to \<^verbatim>\<open>Put\<close> and is left out.
\<close>

definition processResult_step ::
  "(BigQuerySchema \<Rightarrow> 'r) \<Rightarrow> config_Config \<Rightarrow> ('r, 'w) Backend list \<Rightarrow> string \<Rightarrow>
   ('r, 'w) agg_state \<Rightarrow> select_in \<Rightarrow> ('r, 'w) agg_state outcome" where
  "processResult_step toRow cfg backends hostname st inp =
     (case inp of
        CtxDone \<Rightarrow>
          Returned (st\<lparr>trace := trace st @ [LogInfo ''Shutting down result processor'']\<rparr>)
      | EventIn event \<Rightarrow>
          (case upload [toRow event] backends (sinks st) of
             (Some err, w, evs) \<Rightarrow>
               Running (st\<lparr>sinks := w,
                 trace := trace st @ CallUpload [toRow event] # evs
                            @ [LogError (''Error saving a new event: '' @ err)]\<rparr>)
           | (None, w, evs) \<Rightarrow>
               Running (st\<lparr>sinks := w, trace := trace st @ CallUpload [toRow event] # evs\<rparr>))
      | ResultIn None c \<Rightarrow> Panicked NilDereference st
      | ResultIn (Some result) c \<Rightarrow>
          (let dbg = LogDebug (Name result) (User (CPUUsage result))
                       (System (CPUUsage result)) (Total (CPUUsage result));
               row = (ToBigQuerySchema result (atConvert c))\<lparr>Hostname := hostname\<rparr>;
               rows' = rows st @ [toRow row]
           in if int (length rows') \<ge> FlagBufferSize cfg
                 \<or> Since (updateTime st) (atSince c) \<ge> UploadInterval cfg
              then
                (case upload rows' backends (sinks st) of
                   (Some err, w, evs) \<Rightarrow>
                     Running (st\<lparr>rows := rows', sinks := w,
                       trace := trace st @ dbg # CallUpload rows' # evs @ [LogError err]\<rparr>)
                 | (None, w, evs) \<Rightarrow>
                     Running (st\<lparr>rows := [], updateTime := atReset c, sinks := w,
                       trace := trace st @ dbg # CallUpload rows' # evs\<rparr>))
              else Running (st\<lparr>rows := rows', trace := trace st @ [dbg]\<rparr>)))"

text \<open>
  The loop over the turns that the select takes, in order. It stops at the first turn
  that does not leave it running; with no turn left it is still waiting in the select.
\<close>

fun processResult_loop ::
  "(BigQuerySchema \<Rightarrow> 'r) \<Rightarrow> config_Config \<Rightarrow> ('r, 'w) Backend list \<Rightarrow> string \<Rightarrow>
   ('r, 'w) agg_state \<Rightarrow> select_in list \<Rightarrow> ('r, 'w) agg_state outcome" where
  "processResult_loop toRow cfg backends hostname st [] = Running st"
| "processResult_loop toRow cfg backends hostname st (i # inps) =
     (case processResult_step toRow cfg backends hostname st i of
        Running st' \<Rightarrow> processResult_loop toRow cfg backends hostname st' inps
      | out \<Rightarrow> out)"

text \<open>
  \<^verbatim>\<open>func processResult(ctx, cfg, results, backends, eventChan)\<close>. \<open>start\<close> is the reading
  of \<^verbatim>\<open>time.Now()\<close> for \<^verbatim>\<open>updateTime\<close>, \<open>os_Hostname\<close> what \<^verbatim>\<open>os.Hostname()\<close> returns
  (\<open>Inl\<close> the error), \<open>w\<close> the state of the sinks.
\<close>

definition processResult ::
  "(BigQuerySchema \<Rightarrow> 'r) \<Rightarrow> config_Config \<Rightarrow> ('r, 'w) Backend list \<Rightarrow> Time \<Rightarrow>
   string + string \<Rightarrow> 'w \<Rightarrow> select_in list \<Rightarrow> ('r, 'w) agg_state outcome" where
  "processResult toRow cfg backends start os_Hostname w inps =
     (case os_Hostname of
        Inl err \<Rightarrow>
          processResult_loop toRow cfg backends ''<undefined>''
            \<lparr>rows = [], updateTime = start, sinks = w,
             trace = [LogError (''Unable to determine hostname: '' @ err)]\<rparr> inps
      | Inr hostname \<Rightarrow>
          processResult_loop toRow cfg backends hostname
            \<lparr>rows = [], updateTime = start, sinks = w, trace = []\<rparr> inps)"

text \<open>The batches handed to the uploader and the calls of \<^verbatim>\<open>Put\<close>, read off the effects.\<close>

fun uploads :: "'r effect list \<Rightarrow> 'r list list" where
  "uploads [] = []"
| "uploads (CallUpload items # es) = items # uploads es"
| "uploads (e # es) = uploads es"

fun puts :: "'r effect list \<Rightarrow> (string \<times> 'r list \<times> string option) list" where
  "puts [] = []"
| "puts (CallPut i items r # es) = (i, items, r) # puts es"
| "puts (e # es) = puts es"

text \<open>The state an outcome carries.\<close>

fun state_of :: "'s outcome \<Rightarrow> 's" where
  "state_of (Running s) = s"
| "state_of (Returned s) = s"
| "state_of (Blocked s) = s"
| "state_of (Panicked p s) = s"

text \<open>
  The vocabulary of the claims about flushing. \<open>flush_due\<close> is the flush trigger in the
  spec's words: the row count has reached the configured maximum, or the age of the
  batch has reached the configured maximum age. \<open>sample_row\<close> is the row that the
  aggregator appends for a sample, \<open>is_sample\<close> tells a turn that received one.
\<close>

definition flush_due :: "config_Config \<Rightarrow> nat \<Rightarrow> Duration \<Rightarrow> bool" where
  "flush_due cfg n age \<longleftrightarrow> int n \<ge> FlagBufferSize cfg \<or> age \<ge> UploadInterval cfg"

definition sample_row :: "(BigQuerySchema \<Rightarrow> 'r) \<Rightarrow> string \<Rightarrow> SystemdUnitStatus \<Rightarrow> clock \<Rightarrow> 'r" where
  "sample_row toRow hostname result c =
     toRow ((ToBigQuerySchema result (atConvert c))\<lparr>Hostname := hostname\<rparr>)"

fun is_sample :: "select_in \<Rightarrow> bool" where
  "is_sample (ResultIn r c) = True"
| "is_sample i = False"

section \<open>The unit poll dispatcher\<close>

text \<open>
  What the dispatcher does to the outside, oldest first: a call of the unit enumerator
  \<^verbatim>\<open>systemd.GetSystemdUnitsProps\<close>, a task started with \<^verbatim>\<open>go handleUnit\<close>, a status that
  passes through the result channel, a \<^verbatim>\<open>close\<close> of the result channel that completes,
  and the lines written through logrus.
\<close>

datatype watch_effect =
    GetUnits
  | Launch SystemdUnitProps
  | Send SystemdUnitStatus
  | CloseChan
  | WatchInfo string
  | WatchError string

text \<open>
  The surroundings of one task: the unit it is started for, what \<^verbatim>\<open>proc.LoadByPID\<close>
  returns for it (\<open>Inl\<close> the error), whether the context is cancelled by the time the
  task reaches its \<^verbatim>\<open>select\<close>, and whether a receiver takes the status it sends on the
  unbuffered channel. The surroundings of one turn of the loop of \<^verbatim>\<open>StartWatcher\<close>: what
  the enumerator returns, with the surroundings of the task of each unit, and the case
  that the \<^verbatim>\<open>select\<close> after \<^verbatim>\<open>processUnits\<close> takes. \<open>DoneFirst\<close> says that the context
  is cancelled, at the latest during the wait, and that its case is taken; \<open>TimerFirst\<close>
  says that the timer has fired and its case is taken, which \<^verbatim>\<open>select\<close> may do even when
  the context is cancelled as well.
\<close>

record task_in =
  props :: SystemdUnitProps
  sampled :: "string + CPUPidUsage"
  ctxDone :: bool
  received :: bool

datatype wake = DoneFirst | TimerFirst

record tick_in =
  listing :: "string + task_in list"
  wake :: wake

text \<open>
  The state that the turns share: whether the context is known to be cancelled, whether
  the result channel is closed, and the effects so far.
\<close>

record watch_state =
  cancelled :: bool
  closed :: bool
  effects :: "watch_effect list"

text \<open>
  \<^verbatim>\<open>func handleUnit(ctx, unit, cfg, wg, resultChan)\<close>. A task ends by returning (its
  deferred \<^verbatim>\<open>wg.Done()\<close> runs), or it stays in its send for good, or its send panics.
  In a \<^verbatim>\<open>select\<close> with a \<^verbatim>\<open>default\<close>, the case of a cancelled context is ready and is
  the one taken. A send on a closed channel panics; a send on the open channel waits
  for a receiver.
\<close>

datatype task_end = Finished "watch_effect list" | Stuck | SendPanic

definition handleUnit :: "bool \<Rightarrow> bool \<Rightarrow> task_in \<Rightarrow> task_end" where
  "handleUnit is_cancelled is_closed t =
     (case sampled t of
        Inl err \<Rightarrow>
          Finished [WatchError (''Unit '' @ PropsName (props t) @ ''. Error '' @ err)]
      | Inr usage \<Rightarrow>
          if is_cancelled \<or> ctxDone t then Finished []
          else if is_closed then SendPanic
          else if received t then
            Finished [Send \<lparr> Name = PropsName (props t), Pid = PropsPid (props t),
                             CPUUsage = usage \<rparr>]
          else Stuck)"

fun task_effects :: "task_end \<Rightarrow> watch_effect list" where
  "task_effects (Finished es) = es"
| "task_effects Stuck = []"
| "task_effects SendPanic = []"

text \<open>
  \<^verbatim>\<open>func processUnits(ctx, cfg, resultChan) error\<close>. All tasks are started before any is
  waited for; their effects are listed in the order of the units. A panic in a task
  stops the program; otherwise \<^verbatim>\<open>wg.Wait()\<close> returns if and only if every task returned.
  The result, where there is one, is the returned error (\<open>None\<close> for \<^verbatim>\<open>nil\<close>).
\<close>

definition processUnits :: "watch_state \<Rightarrow> tick_in \<Rightarrow> (string option \<times> watch_state) outcome" where
  "processUnits st tick =
     (case listing tick of
        Inl err \<Rightarrow>
          Returned (Some (''Unable to get a list of systemd units: '' @ err),
                    st\<lparr>effects := effects st @ [GetUnits]\<rparr>)
      | Inr tasks \<Rightarrow>
          (let ends = map (handleUnit (cancelled st) (closed st)) tasks;
               st' = st\<lparr>cancelled := cancelled st \<or> list_ex ctxDone tasks,
                        effects := effects st @ GetUnits # map (\<lambda>t. Launch (props t)) tasks
                                     @ concat (map task_effects ends)\<rparr>
           in if list_ex (\<lambda>e. e = SendPanic) ends then Panicked SendOnClosedChannel (None, st')
              else if list_ex (\<lambda>e. e = Stuck) ends then Blocked (None, st')
              else Returned (None, st')))"

text \<open>
  The body of the \<^verbatim>\<open>for\<close> loop of \<^verbatim>\<open>StartWatcher\<close>: \<^verbatim>\<open>processUnits\<close>, the log of its
  error, and the \<^verbatim>\<open>select\<close>. The case of \<^verbatim>\<open>ctx.Done()\<close> logs and closes the result
  channel, the case of the timer does nothing; neither leaves the loop. Closing a closed
  channel panics.
\<close>

definition StartWatcher_step :: "watch_state \<Rightarrow> tick_in \<Rightarrow> watch_state outcome" where
  "StartWatcher_step st tick =
     (case processUnits st tick of
        Returned (err, st1) \<Rightarrow>
          (let st2 = (case err of
                        Some e \<Rightarrow> st1\<lparr>effects := effects st1 @ [WatchError e]\<rparr>
                      | None \<Rightarrow> st1)
           in case wake tick of
                TimerFirst \<Rightarrow> Running st2
              | DoneFirst \<Rightarrow>
                  if closed st2 then
                    Panicked CloseOfClosedChannel
                      (st2\<lparr>cancelled := True,
                           effects := effects st2 @ [WatchInfo ''Shutting down watcher'']\<rparr>)
                  else
                    Running
                      (st2\<lparr>cancelled := True, closed := True,
                           effects := effects st2 @ [WatchInfo ''Shutting down watcher'', CloseChan]\<rparr>))
      | Blocked (err, st1) \<Rightarrow> Blocked st1
      | Panicked p (err, st1) \<Rightarrow> Panicked p st1
      | Running (err, st1) \<Rightarrow> Running st1)"

text \<open>
  The loop over the turns of a schedule, and \<^verbatim>\<open>func StartWatcher(ctx, cfg, backends,
  eventChan)\<close> from its start: the context not cancelled, the fresh channel open. The
  aggregator that \<^verbatim>\<open>StartWatcher\<close> starts first is \<open>processResult\<close> above; it is the
  receiver that the field \<open>received\<close> speaks of, and a panic of its own would end the
  program whatever the dispatcher does. A \<^verbatim>\<open>nil\<close> context is replaced by one that is never
  cancelled: its schedules take the timer in every turn and no task finds it done.
\<close>

fun StartWatcher_loop :: "watch_state \<Rightarrow> tick_in list \<Rightarrow> watch_state outcome" where
  "StartWatcher_loop st [] = Running st"
| "StartWatcher_loop st (tick # sched) =
     (case StartWatcher_step st tick of
        Running st' \<Rightarrow> StartWatcher_loop st' sched
      | out \<Rightarrow> out)"

definition StartWatcher :: "tick_in list \<Rightarrow> watch_state outcome" where
  "StartWatcher sched =
     StartWatcher_loop \<lparr>cancelled = False, closed = False, effects = []\<rparr> sched"

text \<open>The statuses sent and the units for which a task was started, read off the effects.\<close>

fun sent :: "watch_effect list \<Rightarrow> SystemdUnitStatus list" where
  "sent [] = []"
| "sent (Send s # es) = s # sent es"
| "sent (e # es) = sent es"

fun launched :: "watch_effect list \<Rightarrow> SystemdUnitProps list" where
  "launched [] = []"
| "launched (Launch u # es) = u # launched es"
| "launched (e # es) = launched es"

section \<open>Configuration of the API server\<close>

text \<open>
  \<^verbatim>\<open>api/cmd/api-server/config.go\<close>. The struct \<^verbatim>\<open>Config\<close>, and the errors that \<^verbatim>\<open>NewConfig\<close>
  returns: its own, those of \<^verbatim>\<open>flag.FlagSet.Parse\<close> (kept with their parts rather than
  as formatted messages), and the one of \<^verbatim>\<open>time.ParseDuration\<close>.
\<close>

record Config =
  FlagVerbose :: bool
  FlagProjectID :: string
  FlagDataset :: string
  FlagEventStreamTableName :: string
  FlagEventBuffer :: int
  FlagEventFlushInterval :: string
  EventUploadInterval :: Duration

datatype config_error =
    ArgumentsEmpty
  | ErrHelp
  | BadFlagSyntax string
  | NotDefined string
  | InvalidBoolean string string string
  | NeedsArgument string
  | InvalidValue string string string
  | InvalidDuration string

text \<open>
  The functions of Go's standard library that \<^verbatim>\<open>NewConfig\<close> reaches are parameters of
  the model: \<^verbatim>\<open>os.Getenv\<close>, \<^verbatim>\<open>strconv.ParseBool\<close> and \<^verbatim>\<open>strconv.ParseInt\<close> (which the flag
  package calls with base 0 and the size of \<^verbatim>\<open>int\<close>), and \<^verbatim>\<open>time.ParseDuration\<close>. Each
  parser returns \<open>Inl\<close> with the message of its error, or \<open>Inr\<close> with the value.
\<close>

record stdlib =
  Getenv :: "string \<Rightarrow> string"
  ParseBool :: "string \<Rightarrow> string + bool"
  ParseInt :: "string \<Rightarrow> string + int"
  ParseDuration :: "string \<Rightarrow> string + Duration"

text \<open>
  \<^verbatim>\<open>func (c *Config) setFlags(fs *flag.FlagSet)\<close>: the names of the flags and the field
  each one sets. \<open>flag_Set\<close> is the \<^verbatim>\<open>Set\<close> of the flag's value: a string is stored as it
  is, a boolean and an integer go through their parser.
\<close>

datatype flag_var =
    VerboseVar | ProjectIDVar | DatasetVar | EventStreamTableNameVar | EventBufferVar
  | EventFlushIntervalVar

definition setFlags :: "(string \<times> flag_var) list" where
  "setFlags =
     [(''verbose'', VerboseVar),
      (''project-id'', ProjectIDVar),
      (''dataset'', DatasetVar),
      (''event-stream-table'', EventStreamTableNameVar),
      (''event-buffer-size'', EventBufferVar),
      (''flush-buffer'', EventFlushIntervalVar)]"

fun IsBoolFlag :: "flag_var \<Rightarrow> bool" where
  "IsBoolFlag VerboseVar = True"
| "IsBoolFlag f = False"

fun flag_Set :: "stdlib \<Rightarrow> flag_var \<Rightarrow> string \<Rightarrow> Config \<Rightarrow> string + Config" where
  "flag_Set lib VerboseVar v c =
     (case ParseBool lib v of Inl e \<Rightarrow> Inl e | Inr b \<Rightarrow> Inr (c\<lparr>FlagVerbose := b\<rparr>))"
| "flag_Set lib ProjectIDVar v c = Inr (c\<lparr>FlagProjectID := v\<rparr>)"
| "flag_Set lib DatasetVar v c = Inr (c\<lparr>FlagDataset := v\<rparr>)"
| "flag_Set lib EventStreamTableNameVar v c = Inr (c\<lparr>FlagEventStreamTableName := v\<rparr>)"
| "flag_Set lib EventBufferVar v c =
     (case ParseInt lib v of Inl e \<Rightarrow> Inl e | Inr n \<Rightarrow> Inr (c\<lparr>FlagEventBuffer := n\<rparr>))"
| "flag_Set lib EventFlushIntervalVar v c = Inr (c\<lparr>FlagEventFlushInterval := v\<rparr>)"

text \<open>
  \<^verbatim>\<open>flag.FlagSet.parseOne\<close>: one flag is read off the front of the arguments (\<open>Seen\<close>,
  with the arguments left), or the flags are over (\<open>Stop\<close>), or the flag is refused.
  An argument that is shorter than two characters or does not start with \<^verbatim>\<open>-\<close> ends
  the flags, and so does \<^verbatim>\<open>--\<close>. A name may carry its value after the first \<^verbatim>\<open>=\<close>; a
  flag that is not boolean otherwise takes the next argument, whatever it looks like.
\<close>

datatype parsed = Seen Config "string list" | Stop Config | Refused config_error

text \<open>The second half of \<^verbatim>\<open>parseOne\<close>: the flag is known, its value is found and set.\<close>

definition parseOne_value ::
  "stdlib \<Rightarrow> Config \<Rightarrow> flag_var \<Rightarrow> string \<Rightarrow> bool \<Rightarrow> string \<Rightarrow> string list \<Rightarrow> parsed" where
  "parseOne_value lib c f key hasValue val rest =
     (if IsBoolFlag f then
        (case flag_Set lib f (if hasValue then val else ''true'') c of
           Inl e \<Rightarrow> Refused (InvalidBoolean (if hasValue then val else ''true'') key e)
         | Inr c' \<Rightarrow> Seen c' rest)
      else if hasValue then
        (case flag_Set lib f val c of
           Inl e \<Rightarrow> Refused (InvalidValue val key e)
         | Inr c' \<Rightarrow> Seen c' rest)
      else
        (case rest of
           [] \<Rightarrow> Refused (NeedsArgument key)
         | v # rest' \<Rightarrow>
             (case flag_Set lib f v c of
                Inl e \<Rightarrow> Refused (InvalidValue v key e)
              | Inr c' \<Rightarrow> Seen c' rest')))"

definition parseOne :: "stdlib \<Rightarrow> Config \<Rightarrow> string list \<Rightarrow> parsed" where
  "parseOne lib c args =
     (case args of
        [] \<Rightarrow> Stop c
      | s # rest \<Rightarrow>
          if length s < 2 \<or> hd s \<noteq> CHR ''-'' then Stop c
          else if s = ''--'' then Stop c
          else
            (let numMinuses = (if s ! 1 = CHR ''-'' then 2 else 1);
                 name = drop numMinuses s
             in if name = [] \<or> hd name = CHR ''-'' \<or> hd name = CHR ''='' then
                  Refused (BadFlagSyntax s)
                else
                  (let key = hd name # takeWhile (\<lambda>x. x \<noteq> CHR ''='') (tl name);
                       after = dropWhile (\<lambda>x. x \<noteq> CHR ''='') (tl name)
                   in case map_of setFlags key of
                        None \<Rightarrow>
                          if key = ''help'' \<or> key = ''h'' then Refused ErrHelp
                          else Refused (NotDefined key)
                      | Some f \<Rightarrow> parseOne_value lib c f key (after \<noteq> []) (tl after) rest)))"

lemma parseOne_value_shorter:
  assumes "parseOne_value lib c f key hasValue val rest = Seen c' rest'"
  shows "length rest' \<le> length rest"
proof (cases "IsBoolFlag f \<or> hasValue")
  case True
  with assms have "rest' = rest"
    by (auto simp: parseOne_value_def split: sum.splits if_splits)
  then show ?thesis by simp
next
  case False
  with assms show ?thesis
    by (cases rest) (auto simp: parseOne_value_def split: sum.splits)
qed

lemma parseOne_shorter:
  assumes "parseOne lib c args = Seen c' rest"
  shows "length rest < length args"
proof (cases args)
  case Nil
  with assms show ?thesis by (simp add: parseOne_def)
next
  case (Cons s more)
  from assms obtain f key hasValue val where
    "parseOne_value lib c f key hasValue val more = Seen c' rest"
    unfolding parseOne_def Let_def Cons list.case
    by (auto split: if_splits option.splits)
  then have "length rest \<le> length more"
    by (rule parseOne_value_shorter)
  with Cons show ?thesis by simp
qed

text \<open>
  \<^verbatim>\<open>flag.FlagSet.Parse\<close> with \<^verbatim>\<open>flag.ContinueOnError\<close>: flags are read until they are over
  or one is refused.
\<close>

function Parse :: "stdlib \<Rightarrow> Config \<Rightarrow> string list \<Rightarrow> config_error + Config" where
  "Parse lib c args =
     (case parseOne lib c args of
        Seen c' rest \<Rightarrow> Parse lib c' rest
      | Stop c' \<Rightarrow> Inr c'
      | Refused e \<Rightarrow> Inl e)"
  by pat_completeness auto
termination
  by (relation "measure (\<lambda>(lib, c, args). length args)") (auto dest: parseOne_shorter)

declare Parse.simps [simp del]

text \<open>
  \<^verbatim>\<open>func NewConfig(args []string) (*Config, error)\<close>, in two parts: \<open>flagged\<close> is the
  configuration after the defaults, the environment and the flags (lines 37 to 67),
  \<open>NewConfig\<close> adds the parse of the flush interval. The level of the logger, which
  \<^verbatim>\<open>FlagVerbose\<close> sets, is not part of the result.
\<close>

definition override :: "stdlib \<Rightarrow> string \<Rightarrow> string \<Rightarrow> string" where
  "override lib key d = (if Getenv lib key \<noteq> [] then Getenv lib key else d)"

definition flagged :: "stdlib \<Rightarrow> string list \<Rightarrow> config_error + Config" where
  "flagged lib args =
     (if args = [] then Inl ArgumentsEmpty
      else
        Parse lib
          \<lparr> FlagVerbose = False,
            FlagProjectID = override lib ''API_SERVER_PROJECT_ID'' ''massive-bliss-781'',
            FlagDataset = override lib ''API_SERVER_DATASET'' ''dcos_performance'',
            FlagEventStreamTableName = ''event_stream'',
            FlagEventBuffer = 500,
            FlagEventFlushInterval = override lib ''API_SERVER_FLUSH_INTERVAL'' ''10s'',
            EventUploadInterval = 0 \<rparr>
          (tl args))"

definition NewConfig :: "stdlib \<Rightarrow> string list \<Rightarrow> config_error + Config" where
  "NewConfig lib args =
     (case flagged lib args of
        Inl e \<Rightarrow> Inl e
      | Inr c \<Rightarrow>
          (case ParseDuration lib (FlagEventFlushInterval c) of
             Inl e \<Rightarrow> Inl (InvalidDuration e)
           | Inr d \<Rightarrow> Inr (c\<lparr>EventUploadInterval := d\<rparr>)))"

text \<open>
  A stand-in for the standard library on plain inputs, for running the model: no
  environment variable is set; \<open>plain_bool\<close> is \<^verbatim>\<open>strconv.ParseBool\<close>; \<open>plain_int\<close> reads
  an optional sign and decimal digits within 64 bits; \<open>plain_duration\<close> reads an
  optional sign, decimal digits and one unit, or \<^verbatim>\<open>0\<close>. The functions of Go accept
  further forms (other bases, fractions, several units) and give the same values on
  these.
\<close>

fun digit_value :: "char \<Rightarrow> int option" where
  "digit_value ch =
     (if (48::int) \<le> of_char ch \<and> of_char ch \<le> (57::int) then Some (of_char ch - 48)
      else None)"

fun decimal :: "int \<Rightarrow> string \<Rightarrow> int option" where
  "decimal acc [] = Some acc"
| "decimal acc (ch # s) =
     (case digit_value ch of None \<Rightarrow> None | Some d \<Rightarrow> decimal (10 * acc + d) s)"

definition plain_bool :: "string \<Rightarrow> string + bool" where
  "plain_bool s =
     (if s \<in> set [''1'', ''t'', ''T'', ''TRUE'', ''true'', ''True''] then Inr True
      else if s \<in> set [''0'', ''f'', ''F'', ''FALSE'', ''false'', ''False''] then Inr False
      else Inl ''parse error'')"

definition plain_int :: "string \<Rightarrow> string + int" where
  "plain_int s =
     (let neg = (s \<noteq> [] \<and> hd s = CHR ''-'');
          body = (if s \<noteq> [] \<and> (hd s = CHR ''-'' \<or> hd s = CHR ''+'') then tl s else s)
      in if body = [] then Inl ''parse error''
         else case decimal 0 body of
                None \<Rightarrow> Inl ''parse error''
              | Some n \<Rightarrow>
                  if neg then
                    (if n > 9223372036854775808 then Inl ''value out of range'' else Inr (- n))
                  else
                    (if n \<ge> 9223372036854775808 then Inl ''value out of range'' else Inr n))"

definition unit_nanos :: "(string \<times> int) list" where
  "unit_nanos =
     [(''ns'', 1), (''us'', 1000), (''ms'', 1000000), (''s'', 1000000000),
      (''m'', 60000000000), (''h'', 3600000000000)]"

definition plain_duration :: "string \<Rightarrow> string + Duration" where
  "plain_duration s =
     (let neg = (s \<noteq> [] \<and> hd s = CHR ''-'');
          body = (if s \<noteq> [] \<and> (hd s = CHR ''-'' \<or> hd s = CHR ''+'') then tl s else s);
          ds = takeWhile (\<lambda>ch. digit_value ch \<noteq> None) body;
          u = dropWhile (\<lambda>ch. digit_value ch \<noteq> None) body
      in if body = ''0'' then Inr 0
         else if ds = [] then Inl (''time: invalid duration '' @ s)
         else case (decimal 0 ds, map_of unit_nanos u) of
                (Some n, Some k) \<Rightarrow>
                  if n * k \<ge> 9223372036854775808 then Inl (''time: invalid duration '' @ s)
                  else Inr (if neg then - (n * k) else n * k)
              | _ \<Rightarrow> Inl (''time: invalid duration '' @ s))"

definition plain_lib :: stdlib where
  "plain_lib =
     \<lparr> Getenv = (\<lambda>key. []), ParseBool = plain_bool, ParseInt = plain_int,
       ParseDuration = plain_duration \<rparr>"

section \<open>Concrete inputs\<close>

text \<open>
  Two samples (user 0.25, system 0.5, total 0.75; user 0.1, system 0.05, total 0.15), an
  event, the rows they become on the host \<open>agent-7\<close> when a row is the schema itself, two
  sinks whose state counts the calls of \<^verbatim>\<open>Put\<close> (the second fails while fewer than two
  calls were made), and two configurations: a batch of one row, and a batch of 500.
\<close>

definition sample1 :: SystemdUnitStatus where
  "sample1 = \<lparr> Name = ''dcos-mesos-master.service'', Pid = 4242,
       CPUUsage = \<lparr> User = 0x3FD0000000000000, System = 0x3FE0000000000000,
                    Total = 0x3FE8000000000000 \<rparr> \<rparr>"

definition sample2 :: SystemdUnitStatus where
  "sample2 = \<lparr> Name = ''dcos-marathon.service'', Pid = 977,
       CPUUsage = \<lparr> User = 0x3FB999999999999A, System = 0x3FA999999999999A,
                    Total = 0x3FC3333333333333 \<rparr> \<rparr>"

definition event1 :: BigQuerySchema where
  "event1 = \<lparr> SchemaName = ''deploy-started'', Timestamp = 60000000000,
       UserCPU_Usage = 0, SystemCPU_Usage = 0, TotalCPU_Usage = 0,
       Hostname = ''agent-7'', Instance = ''run-12'' \<rparr>"

definition steady :: "(BigQuerySchema, nat) Backend" where
  "steady = \<lparr> ID = ''bigquery'', Put = (\<lambda>w items. (None, Suc w)) \<rparr>"

definition flaky :: "(BigQuerySchema, nat) Backend" where
  "flaky = \<lparr> ID = ''file'', Put = (\<lambda>w items. (if w < 2 then Some ''disk full'' else None, Suc w)) \<rparr>"

definition cfg_one :: config_Config where
  "cfg_one = \<lparr> Wait = 1000000000, CPUUsageInterval = 1000000000, FlagBufferSize = 1, UploadInterval = 10000000000 \<rparr>"

definition cfg_big :: config_Config where
  "cfg_big = \<lparr> Wait = 1000000000, CPUUsageInterval = 1000000000, FlagBufferSize = 500, UploadInterval = 10000000000 \<rparr>"

definition row1 :: BigQuerySchema where
  "row1 = \<lparr> SchemaName = ''dcos-mesos-master.service'', Timestamp = 1000000000,
       UserCPU_Usage = 0x3FD0000000000000, SystemCPU_Usage = 0x3FD0000000000000, TotalCPU_Usage = 0x3FE8000000000000,
       Hostname = ''agent-7'', Instance = ''4242'' \<rparr>"

definition row2 :: BigQuerySchema where
  "row2 = \<lparr> SchemaName = ''dcos-marathon.service'', Timestamp = 2000000000,
       UserCPU_Usage = 0x3FB999999999999A, SystemCPU_Usage = 0x3FB999999999999A, TotalCPU_Usage = 0x3FC3333333333333,
       Hostname = ''agent-7'', Instance = ''977'' \<rparr>"

definition clock1 :: clock where "clock1 = \<lparr> atConvert = 1000000000, atSince = 1000000001, atReset = 1000000900 \<rparr>"
definition clock2 :: clock where "clock2 = \<lparr> atConvert = 2000000000, atSince = 2000000001, atReset = 2000000900 \<rparr>"

definition idle0 :: "(BigQuerySchema, nat) agg_state" where
  "idle0 = \<lparr>rows = [], updateTime = 0, sinks = 0, trace = []\<rparr>"

definition open1 :: "(BigQuerySchema, nat) agg_state" where
  "open1 = \<lparr>rows = [row1], updateTime = 0, sinks = 0, trace = []\<rparr>"

definition late :: clock where
  "late = \<lparr> atConvert = 2000000000, atSince = 10000000005, atReset = 10000000900 \<rparr>"

text \<open>
  For the dispatcher: three units; tasks whose sample succeeds and is received, a task
  whose process is gone, a task that finds the context cancelled, and a task whose
  status nobody receives; a turn in which the cancellation fires during the wait, the
  turn after it, a turn in which the cancellation fires while a task is in its send and
  the aggregator has returned, a turn in which the enumerator fails, and a turn with
  three units; the state at the start, and the state after the first close.
\<close>

definition unit1 :: SystemdUnitProps where
  "unit1 = \<lparr> PropsName = ''dcos-mesos-master.service'', PropsPid = 4242 \<rparr>"

definition unit2 :: SystemdUnitProps where
  "unit2 = \<lparr> PropsName = ''dcos-marathon.service'', PropsPid = 977 \<rparr>"

definition unit3 :: SystemdUnitProps where
  "unit3 = \<lparr> PropsName = ''dcos-spartan.service'', PropsPid = 1313 \<rparr>"

definition task1 :: task_in where
  "task1 = \<lparr> props = unit1, sampled = Inr (CPUUsage sample1), ctxDone = False, received = True \<rparr>"

definition task2 :: task_in where
  "task2 = \<lparr> props = unit2, sampled = Inr (CPUUsage sample2), ctxDone = False, received = True \<rparr>"

definition task3_gone :: task_in where
  "task3_gone = \<lparr> props = unit3, sampled = Inl ''process does not exist'', ctxDone = False, received = True \<rparr>"

definition task2_late :: task_in where
  "task2_late = \<lparr> props = unit2, sampled = Inr (CPUUsage sample2), ctxDone = True, received = False \<rparr>"

definition task1_unreceived :: task_in where
  "task1_unreceived = \<lparr> props = unit1, sampled = Inr (CPUUsage sample1), ctxDone = False, received = False \<rparr>"

definition tick_cancel :: tick_in where
  "tick_cancel = \<lparr> listing = Inr [task1], wake = DoneFirst \<rparr>"

definition tick_after :: tick_in where
  "tick_after = \<lparr> listing = Inr [task2_late], wake = DoneFirst \<rparr>"

definition tick_stuck :: tick_in where
  "tick_stuck = \<lparr> listing = Inr [task2_late, task1_unreceived], wake = DoneFirst \<rparr>"

definition tick_no_units :: tick_in where
  "tick_no_units = \<lparr> listing = Inl ''dbus: connection refused'', wake = TimerFirst \<rparr>"

definition tick_three :: tick_in where
  "tick_three = \<lparr> listing = Inr [task1, task3_gone, task2], wake = TimerFirst \<rparr>"

definition watch_start :: watch_state where
  "watch_start = \<lparr>cancelled = False, closed = False, effects = []\<rparr>"

definition watch_closed :: watch_state where
  "watch_closed = \<lparr>cancelled = True, closed = True,
      effects = [GetUnits, Launch unit1, Send sample1,
                 WatchInfo ''Shutting down watcher'', CloseChan]\<rparr>"

section \<open>Properties: conversion of a sample\<close>

text \<open>
  C1. The claim asks that the row's systemCPU field be the sample's system value. The
  conversion writes the sample's user value there: for the first sample (user 0.25,
  system 0.5) the row's systemCPU is 0.25, the bit pattern \<open>0x3FD0000000000000\<close>, and
  not 0.5. The user and total fields are copied as claimed.
\<close>

theorem ToBigQuerySchema_system_is_user:
  "SystemCPU_Usage (ToBigQuerySchema sample1 1000) = 0x3FD0000000000000
   \<and> System (CPUUsage sample1) = 0x3FE0000000000000
   \<and> SystemCPU_Usage (ToBigQuerySchema sample1 1000) \<noteq> System (CPUUsage sample1)
   \<and> UserCPU_Usage (ToBigQuerySchema sample1 1000) = User (CPUUsage sample1)
   \<and> TotalCPU_Usage (ToBigQuerySchema sample1 1000) = Total (CPUUsage sample1)"
  by (simp add: ToBigQuerySchema_def sample1_def)

section \<open>Properties: the uploader\<close>

lemma uploads_append: "uploads (xs @ ys) = uploads xs @ uploads ys"
  by (induction xs rule: uploads.induct) simp_all

lemma puts_append: "puts (xs @ ys) = puts xs @ puts ys"
  by (induction xs rule: puts.induct) simp_all

lemma upload_hands_nothing: "upload items bs w = (r, w', evs) \<Longrightarrow> uploads evs = []"
  by (induction bs arbitrary: w r w' evs) (auto split: prod.splits option.splits)

lemma upload_puts_items:
  "upload items bs w = (r, w', evs) \<Longrightarrow>
     map (\<lambda>c. fst (snd c)) (puts evs) = replicate (length (puts evs)) items"
  by (induction bs arbitrary: w r w' evs) (auto split: prod.splits option.splits)

lemma upload_ok:
  "upload items bs w = (None, w', evs) \<Longrightarrow>
     puts evs = map (\<lambda>b. (ID b, items, None)) bs
     \<and> w' = foldl (\<lambda>v b. snd (Put b v items)) w bs"
proof (induction bs arbitrary: w evs)
  case Nil
  then show ?case by simp
next
  case (Cons b bs)
  then show ?case
    by (auto split: prod.splits option.splits)
qed

lemma upload_failed:
  "upload items bs w = (Some e, w', evs) \<Longrightarrow>
     \<exists>pre b post err. bs = pre @ b # post
       \<and> puts evs = map (\<lambda>b. (ID b, items, None)) pre @ [(ID b, items, Some err)]
       \<and> Put b (foldl (\<lambda>v b. snd (Put b v items)) w pre) items = (Some err, w')
       \<and> e = ''Error uploading to backend '' @ ID b @ '': '' @ err"
proof (induction bs arbitrary: w evs)
  case Nil
  then show ?case by simp
next
  case (Cons b bs)
  show ?case
  proof (cases "Put b w items")
    case (Pair r v)
    show ?thesis
    proof (cases r)
      case None
      obtain r2 w2 evs2 where u: "upload items bs v = (r2, w2, evs2)"
        by (cases "upload items bs v") auto
      with Cons.prems Pair None have r2: "r2 = Some e" "w2 = w'"
        and evs: "evs = CallPut (ID b) items None # LogInfo (''Uploaded to storage '' @ ID b) # evs2"
        by auto
      from Cons.IH[of v evs2] u r2 obtain pre c post err where
        h: "bs = pre @ c # post"
           "puts evs2 = map (\<lambda>b. (ID b, items, None)) pre @ [(ID c, items, Some err)]"
           "Put c (foldl (\<lambda>v b. snd (Put b v items)) v pre) items = (Some err, w')"
           "e = ''Error uploading to backend '' @ ID c @ '': '' @ err"
        by blast
      have "b # bs = (b # pre) @ c # post" using h by simp
      moreover have "puts evs = map (\<lambda>b. (ID b, items, None)) (b # pre) @ [(ID c, items, Some err)]"
        using h evs by simp
      moreover have "Put c (foldl (\<lambda>v b. snd (Put b v items)) w (b # pre)) items = (Some err, w')"
        using h Pair by simp
      ultimately show ?thesis using h(4) by blast
    next
      case (Some err)
      with Cons.prems Pair have "e = ''Error uploading to backend '' @ ID b @ '': '' @ err"
        "w' = v" "evs = [CallPut (ID b) items (Some err)]" by auto
      then have "b # bs = [] @ b # bs \<and> puts evs = map (\<lambda>b. (ID b, items, None)) [] @ [(ID b, items, Some err)]
        \<and> Put b (foldl (\<lambda>v b. snd (Put b v items)) w []) items = (Some err, w')
        \<and> e = ''Error uploading to backend '' @ ID b @ '': '' @ err"
        using Pair Some by simp
      then show ?thesis by blast
    qed
  qed
qed

lemma upload_three:
  "upload [row1] [steady, flaky, steady] 0
     = (Some ''Error uploading to backend file: disk full'', 2,
        [CallPut ''bigquery'' [row1] None, LogInfo ''Uploaded to storage bigquery'',
         CallPut ''file'' [row1] (Some ''disk full'')])"
  by (simp add: steady_def flaky_def)

text \<open>
  C7. The calls of \<^verbatim>\<open>Put\<close> that \<^verbatim>\<open>upload\<close> makes, in the order it makes them, follow the
  list of sinks. When it returns no error, it has called every sink, each with the
  batch, and each call succeeded. When it returns an error, the sinks split into those
  before a sink \<open>b\<close>, all called with success, \<open>b\<close> itself, whose \<^verbatim>\<open>Put\<close> failed in the
  state the earlier calls left, and the sinks after \<open>b\<close>, none of which is called; the
  error is the failure of \<open>b\<close> behind the identifier of \<open>b\<close>.
\<close>

theorem upload_sinks_in_order:
  "(upload items backends w = (None, w', evs) \<longrightarrow>
      puts evs = map (\<lambda>b. (ID b, items, None)) backends
      \<and> w' = foldl (\<lambda>v b. snd (Put b v items)) w backends)
   \<and> (upload items backends w = (Some e, w', evs) \<longrightarrow>
      (\<exists>pre b post err. backends = pre @ b # post
         \<and> puts evs = map (\<lambda>b. (ID b, items, None)) pre @ [(ID b, items, Some err)]
         \<and> Put b (foldl (\<lambda>v b. snd (Put b v items)) w pre) items = (Some err, w')
         \<and> e = ''Error uploading to backend '' @ ID b @ '': '' @ err))"
  using upload_ok [of items backends w w' evs] upload_failed [of items backends w e w' evs]
  by blast

text \<open>
  An instance: of three sinks the second fails, so the first two are called and the
  third is not; of two sinks that succeed both are called.
\<close>

theorem upload_sinks_in_order_witness:
  "upload [row1] [steady, flaky, steady] 0
     = (Some ''Error uploading to backend file: disk full'', 2,
        [CallPut ''bigquery'' [row1] None, LogInfo ''Uploaded to storage bigquery'',
         CallPut ''file'' [row1] (Some ''disk full'')])
   \<and> (\<exists>pre b post err. [steady, flaky, steady] = pre @ b # post
         \<and> puts [CallPut ''bigquery'' [row1] None, LogInfo ''Uploaded to storage bigquery'',
                  CallPut ''file'' [row1] (Some ''disk full'')]
             = map (\<lambda>b. (ID b, [row1], None)) pre @ [(ID b, [row1], Some err)]
         \<and> Put b (foldl (\<lambda>v b. snd (Put b v [row1])) 0 pre) [row1] = (Some err, 2)
         \<and> ''Error uploading to backend file: disk full''
             = ''Error uploading to backend '' @ ID b @ '': '' @ err)
   \<and> upload [row1] [steady, steady] 0
     = (None, 2, [CallPut ''bigquery'' [row1] None, LogInfo ''Uploaded to storage bigquery'',
                  CallPut ''bigquery'' [row1] None, LogInfo ''Uploaded to storage bigquery''])
   \<and> puts [CallPut ''bigquery'' [row1] None, LogInfo ''Uploaded to storage bigquery'',
            CallPut ''bigquery'' [row1] None, LogInfo ''Uploaded to storage bigquery'']
       = map (\<lambda>b. (ID b, [row1], None)) [steady, steady]"
proof -
  have two: "upload [row1] [steady, steady] 0
     = (None, 2, [CallPut ''bigquery'' [row1] None, LogInfo ''Uploaded to storage bigquery'',
                  CallPut ''bigquery'' [row1] None, LogInfo ''Uploaded to storage bigquery''])"
    by (simp add: steady_def)
  show ?thesis
    using upload_three two
      upload_sinks_in_order [of "[row1]" "[steady, flaky, steady]" 0 2
        "[CallPut ''bigquery'' [row1] None, LogInfo ''Uploaded to storage bigquery'',
          CallPut ''file'' [row1] (Some ''disk full'')]"
        "''Error uploading to backend file: disk full''"]
      upload_sinks_in_order [of "[row1]" "[steady, steady]" 0 2
        "[CallPut ''bigquery'' [row1] None, LogInfo ''Uploaded to storage bigquery'',
          CallPut ''bigquery'' [row1] None, LogInfo ''Uploaded to storage bigquery'']"]
    by simp
qed

section \<open>Properties: the aggregator\<close>

lemma Sub_mono: "t \<le> t' \<Longrightarrow> Sub t u \<le> Sub t' u"
  by (auto simp: Sub_def maxDuration_def minDuration_def)

lemma processResult_step_event:
  "\<exists>st'. processResult_step toRow cfg backends hostname st (EventIn event) = Running st'
     \<and> rows st' = rows st \<and> updateTime st' = updateTime st
     \<and> uploads (trace st') = uploads (trace st) @ [[toRow event]]"
proof -
  obtain r w evs where u: "upload [toRow event] backends (sinks st) = (r, w, evs)"
    by (cases "upload [toRow event] backends (sinks st)") auto
  then have "uploads evs = []" by (rule upload_hands_nothing)
  with u show ?thesis
    by (cases r) (simp_all add: processResult_step_def uploads_append)
qed

lemma processResult_step_sample_idle:
  assumes "\<not> flush_due cfg (length (rows st) + 1) (Since (updateTime st) (atSince c))"
  shows "processResult_step toRow cfg backends hostname st (ResultIn (Some result) c)
     = Running (st\<lparr>rows := rows st @ [sample_row toRow hostname result c],
          trace := trace st @ [LogDebug (Name result) (User (CPUUsage result))
                       (System (CPUUsage result)) (Total (CPUUsage result))]\<rparr>)"
  using assms by (simp add: processResult_step_def flush_due_def sample_row_def Let_def)

lemma processResult_step_sample_failed:
  assumes "flush_due cfg (length (rows st) + 1) (Since (updateTime st) (atSince c))"
    and "upload (rows st @ [sample_row toRow hostname result c]) backends (sinks st) = (Some err, w, evs)"
  shows "processResult_step toRow cfg backends hostname st (ResultIn (Some result) c)
     = Running (st\<lparr>rows := rows st @ [sample_row toRow hostname result c], sinks := w,
          trace := trace st @ LogDebug (Name result) (User (CPUUsage result))
                       (System (CPUUsage result)) (Total (CPUUsage result))
                     # CallUpload (rows st @ [sample_row toRow hostname result c]) # evs @ [LogError err]\<rparr>)"
  using assms by (auto simp add: processResult_step_def flush_due_def sample_row_def Let_def)

lemma processResult_step_sample_flushed:
  assumes "flush_due cfg (length (rows st) + 1) (Since (updateTime st) (atSince c))"
    and "upload (rows st @ [sample_row toRow hostname result c]) backends (sinks st) = (None, w, evs)"
  shows "processResult_step toRow cfg backends hostname st (ResultIn (Some result) c)
     = Running (st\<lparr>rows := [], updateTime := atReset c, sinks := w,
          trace := trace st @ LogDebug (Name result) (User (CPUUsage result))
                       (System (CPUUsage result)) (Total (CPUUsage result))
                     # CallUpload (rows st @ [sample_row toRow hostname result c]) # evs\<rparr>)"
  using assms by (auto simp add: processResult_step_def flush_due_def sample_row_def Let_def)

lemma flush_due_hands:
  assumes "flush_due cfg (length (rows st) + 1) (Since (updateTime st) (atSince c))"
  shows "uploads (trace (state_of (processResult_step toRow cfg backends hostname st (ResultIn (Some result) c))))
     = uploads (trace st) @ [rows st @ [sample_row toRow hostname result c]]"
proof -
  obtain r w evs where
    u: "upload (rows st @ [sample_row toRow hostname result c]) backends (sinks st) = (r, w, evs)"
    by (cases "upload (rows st @ [sample_row toRow hostname result c]) backends (sinks st)") auto
  then have none: "uploads evs = []" by (rule upload_hands_nothing)
  show ?thesis
  proof (cases r)
    case None
    with assms u none show ?thesis
      by (simp add: processResult_step_sample_flushed uploads_append)
  next
    case (Some err)
    with assms u none show ?thesis
      by (simp add: processResult_step_sample_failed uploads_append)
  qed
qed

lemma flush_due_later:
  assumes "flush_due cfg n (Since u t)" and "t \<le> t'" and "n \<le> n'"
  shows "flush_due cfg n' (Since u t')"
proof -
  have "Since u t \<le> Since u t'"
    using assms(2) by (simp add: Since_def Sub_mono)
  with assms show ?thesis
    by (auto simp: flush_due_def)
qed

lemma loop_without_sample:
  "\<forall>i \<in> set inps. \<not> is_sample i \<Longrightarrow>
     rows (state_of (processResult_loop toRow cfg backends hostname st inps)) = rows st
     \<and> updateTime (state_of (processResult_loop toRow cfg backends hostname st inps)) = updateTime st
     \<and> (\<exists>evs. uploads (trace (state_of (processResult_loop toRow cfg backends hostname st inps)))
              = uploads (trace st) @ map (\<lambda>e. [toRow e]) evs)"
proof (induction inps arbitrary: st)
  case Nil
  show ?case by (auto intro: exI [of _ "[]"])
next
  case (Cons i inps)
  show ?case
  proof (cases i)
    case CtxDone
    then show ?thesis
      by (auto simp: processResult_step_def uploads_append intro: exI [of _ "[]"])
  next
    case (EventIn event)
    from processResult_step_event [of toRow cfg backends hostname st event] obtain st' where
      s: "processResult_step toRow cfg backends hostname st (EventIn event) = Running st'"
         "rows st' = rows st" "updateTime st' = updateTime st"
         "uploads (trace st') = uploads (trace st) @ [[toRow event]]"
      by blast
    from Cons.prems have "\<forall>i \<in> set inps. \<not> is_sample i" by simp
    from Cons.IH [OF this, of st'] obtain evs where
      ih: "rows (state_of (processResult_loop toRow cfg backends hostname st' inps)) = rows st'"
          "updateTime (state_of (processResult_loop toRow cfg backends hostname st' inps)) = updateTime st'"
          "uploads (trace (state_of (processResult_loop toRow cfg backends hostname st' inps)))
              = uploads (trace st') @ map (\<lambda>e. [toRow e]) evs"
      by blast
    have "uploads (trace (state_of (processResult_loop toRow cfg backends hostname st' inps)))
              = uploads (trace st) @ map (\<lambda>e. [toRow e]) (event # evs)"
      using ih(3) s(4) by simp
    then have "\<exists>evs'. uploads (trace (state_of (processResult_loop toRow cfg backends hostname st' inps)))
              = uploads (trace st) @ map (\<lambda>e. [toRow e]) evs'"
      by (rule exI)
    with EventIn s(1,2,3) ih(1,2) show ?thesis
      by simp
  next
    case (ResultIn r c)
    with Cons.prems show ?thesis by simp
  qed
qed

text \<open>Evaluation of the model on the concrete inputs.\<close>

lemma digits_4242: "digits 4242 = ''4242''"
  by code_simp

lemma digits_977: "digits 977 = ''977''"
  by code_simp

lemmas run_simps =
  processResult_def processResult_step_def Let_def ToBigQuerySchema_def Itoa_def digits_4242 digits_977
  row1_def row2_def event1_def Since_def Sub_def maxDuration_def minDuration_def idle0_def open1_def
  steady_def flaky_def cfg_one_def cfg_big_def sample1_def sample2_def clock1_def clock2_def late_def

lemma sample_row1: "sample_row (\<lambda>s. s) ''agent-7'' sample1 clock1 = row1"
  by (simp add: sample_row_def run_simps del: digits.simps)

lemma sample_row2: "sample_row (\<lambda>s. s) ''agent-7'' sample2 clock2 = row2"
  by (simp add: sample_row_def run_simps del: digits.simps)

lemma run_two_samples:
  "processResult (\<lambda>s. s) cfg_one [steady, flaky] 0 (Inr ''agent-7'') 0
       [ResultIn (Some sample1) clock1, ResultIn (Some sample2) clock2]
   = Running \<lparr>rows = [], updateTime = 2000000900, sinks = 4,
       trace = [LogDebug ''dcos-mesos-master.service''
                  0x3FD0000000000000 0x3FE0000000000000 0x3FE8000000000000,
                CallUpload [row1],
                CallPut ''bigquery'' [row1] None, LogInfo ''Uploaded to storage bigquery'',
                CallPut ''file'' [row1] (Some ''disk full''),
                LogError ''Error uploading to backend file: disk full'',
                LogDebug ''dcos-marathon.service''
                  0x3FB999999999999A 0x3FA999999999999A 0x3FC3333333333333,
                CallUpload [row1, row2],
                CallPut ''bigquery'' [row1, row2] None, LogInfo ''Uploaded to storage bigquery'',
                CallPut ''file'' [row1, row2] None, LogInfo ''Uploaded to storage file'']\<rparr>"
  by (simp add: run_simps del: digits.simps)

lemma first_upload_fails:
  "upload (rows idle0 @ [sample_row (\<lambda>s. s) ''agent-7'' sample1 clock1]) [steady, flaky] (sinks idle0)
     = (Some ''Error uploading to backend file: disk full'', 2,
        [CallPut ''bigquery'' [row1] None, LogInfo ''Uploaded to storage bigquery'',
         CallPut ''file'' [row1] (Some ''disk full'')])"
  by (simp add: sample_row1) (simp add: idle0_def steady_def flaky_def)

lemma first_flush_due:
  "flush_due cfg_one (length (rows idle0) + 1) (Since (updateTime idle0) (atSince clock1))"
  by (simp add: flush_due_def cfg_one_def idle0_def)

text \<open>
  C8. A turn that receives an event hands the uploader the batch of exactly that event's
  row, whatever the configuration, the clock and the open batch are: it is the only
  batch handed over in the turn, and every \<^verbatim>\<open>Put\<close> of the turn is called with it. The loop
  goes on, and the open batch and its opening time are as before.
\<close>

theorem event_is_singleton_batch:
  "\<exists>st' new. processResult_step toRow cfg backends hostname st (EventIn event) = Running st'
     \<and> rows st' = rows st \<and> updateTime st' = updateTime st
     \<and> trace st' = trace st @ CallUpload [toRow event] # new
     \<and> uploads new = []
     \<and> map (\<lambda>c. fst (snd c)) (puts new) = replicate (length (puts new)) [toRow event]"
proof -
  obtain r w evs where u: "upload [toRow event] backends (sinks st) = (r, w, evs)"
    by (cases "upload [toRow event] backends (sinks st)") auto
  from u have none: "uploads evs = []"
    by (rule upload_hands_nothing)
  from u have items: "map (\<lambda>c. fst (snd c)) (puts evs) = replicate (length (puts evs)) [toRow event]"
    by (rule upload_puts_items)
  show ?thesis
  proof (cases r)
    case None
    with u have "processResult_step toRow cfg backends hostname st (EventIn event)
        = Running (st\<lparr>sinks := w, trace := trace st @ CallUpload [toRow event] # evs\<rparr>)"
      by (simp add: processResult_step_def)
    with none items show ?thesis
      by simp
  next
    case (Some err)
    with u have "processResult_step toRow cfg backends hostname st (EventIn event)
        = Running (st\<lparr>sinks := w, trace := trace st @ CallUpload [toRow event]
            # (evs @ [LogError (''Error saving a new event: '' @ err)])\<rparr>)"
      by (simp add: processResult_step_def)
    moreover have "uploads (evs @ [LogError (''Error saving a new event: '' @ err)]) = []"
      "map (\<lambda>c. fst (snd c)) (puts (evs @ [LogError (''Error saving a new event: '' @ err)]))
         = replicate (length (puts (evs @ [LogError (''Error saving a new event: '' @ err)]))) [toRow event]"
      using none items by (simp_all add: uploads_append puts_append)
    ultimately show ?thesis
      by (intro exI [of _ "st\<lparr>sinks := w, trace := trace st @ CallUpload [toRow event]
            # (evs @ [LogError (''Error saving a new event: '' @ err)])\<rparr>"]
          exI [of _ "evs @ [LogError (''Error saving a new event: '' @ err)]"]) simp
  qed
qed

text \<open>
  C5, as stated, fails: a flush resets the age clock only if the upload succeeds. With a
  batch size of one and a sink that fails, the first sample is handed to the uploader
  and the opening time stays 0, although the clock read 1000000900 after the upload.
\<close>

theorem failed_flush_keeps_clock:
  "processResult_step (\<lambda>s. s) cfg_one [flaky] ''agent-7'' idle0 (ResultIn (Some sample1) clock1)
     = Running \<lparr>rows = [row1], updateTime = 0, sinks = 1,
         trace = [LogDebug ''dcos-mesos-master.service'' 0x3FD0000000000000 0x3FE0000000000000 0x3FE8000000000000,
                  CallUpload [row1],
                  CallPut ''file'' [row1] (Some ''disk full''),
                  LogError ''Error uploading to backend file: disk full'']\<rparr>
   \<and> atReset clock1 = 1000000900
   \<and> updateTime idle0 = 0"
  by (simp add: run_simps del: digits.simps)

text \<open>
  C5, amended. A turn that receives a sample appends its row and goes on. It hands the
  batch, the new row included, to the uploader if and only if the flush is due: the row
  count has reached \<^verbatim>\<open>FlagBufferSize\<close> or the time since the batch was opened has reached
  \<^verbatim>\<open>UploadInterval\<close>. A flush whose upload succeeds, whichever trigger caused it, empties
  the batch and sets the opening time to the clock read after the upload; in every other
  case the batch keeps its rows and its opening time.
\<close>

theorem flush_iff_count_or_age:
  "\<exists>st'. processResult_step toRow cfg backends hostname st (ResultIn (Some result) c) = Running st'
     \<and> uploads (trace st') = uploads (trace st)
          @ (if flush_due cfg (length (rows st) + 1) (Since (updateTime st) (atSince c))
             then [rows st @ [sample_row toRow hostname result c]] else [])
     \<and> (if flush_due cfg (length (rows st) + 1) (Since (updateTime st) (atSince c))
            \<and> fst (upload (rows st @ [sample_row toRow hostname result c]) backends (sinks st)) = None
         then rows st' = [] \<and> updateTime st' = atReset c
         else rows st' = rows st @ [sample_row toRow hostname result c]
              \<and> updateTime st' = updateTime st)"
proof (cases "flush_due cfg (length (rows st) + 1) (Since (updateTime st) (atSince c))")
  case False
  then show ?thesis
    by (simp add: processResult_step_sample_idle uploads_append)
next
  case True
  obtain r w evs where
    u: "upload (rows st @ [sample_row toRow hostname result c]) backends (sinks st) = (r, w, evs)"
    by (cases "upload (rows st @ [sample_row toRow hostname result c]) backends (sinks st)") auto
  then have none: "uploads evs = []" by (rule upload_hands_nothing)
  show ?thesis
  proof (cases r)
    case None
    with True u none show ?thesis
      by (simp add: processResult_step_sample_flushed uploads_append)
  next
    case (Some err)
    with True u none show ?thesis
      by (simp add: processResult_step_sample_failed uploads_append)
  qed
qed

text \<open>
  C2, as stated, fails: a batch whose upload failed is not discarded. With a batch size
  of one and the second of two sinks failing once, the first sample's row is handed to
  the uploader twice, in the batches \<open>[row1]\<close> and \<open>[row1, row2]\<close>, and the first sink
  accepts both.
\<close>

theorem failed_batch_handed_twice:
  "uploads (trace (state_of (processResult (\<lambda>s. s) cfg_one [steady, flaky] 0 (Inr ''agent-7'') 0
       [ResultIn (Some sample1) clock1, ResultIn (Some sample2) clock2])))
     = [[row1], [row1, row2]]
   \<and> puts (trace (state_of (processResult (\<lambda>s. s) cfg_one [steady, flaky] 0 (Inr ''agent-7'') 0
       [ResultIn (Some sample1) clock1, ResultIn (Some sample2) clock2])))
     = [(''bigquery'', [row1], None), (''file'', [row1], Some ''disk full''),
        (''bigquery'', [row1, row2], None), (''file'', [row1, row2], None)]
   \<and> \<not> distinct (concat (uploads (trace (state_of (processResult (\<lambda>s. s) cfg_one [steady, flaky] 0 (Inr ''agent-7'') 0
       [ResultIn (Some sample1) clock1, ResultIn (Some sample2) clock2])))))"
  by (simp add: run_two_samples)

text \<open>
  C2, amended. When the upload of a due batch fails, the error is logged and the loop
  goes on, with the rows of the batch still in the open batch and the opening time
  unchanged. The next sample, read at a clock that has not gone back, is then handed to
  the uploader together with them.
\<close>

theorem failed_upload_keeps_batch:
  assumes "flush_due cfg (length (rows st) + 1) (Since (updateTime st) (atSince c))"
    and "upload (rows st @ [sample_row toRow hostname result c]) backends (sinks st) = (Some err, w, evs)"
  shows "\<exists>st1. processResult_step toRow cfg backends hostname st (ResultIn (Some result) c) = Running st1
      \<and> rows st1 = rows st @ [sample_row toRow hostname result c]
      \<and> updateTime st1 = updateTime st
      \<and> trace st1 = trace st @ LogDebug (Name result) (User (CPUUsage result))
                       (System (CPUUsage result)) (Total (CPUUsage result))
                     # CallUpload (rows st @ [sample_row toRow hostname result c]) # evs @ [LogError err]
      \<and> (\<forall>result2 c2. atSince c \<le> atSince c2 \<longrightarrow>
           uploads (trace (state_of (processResult_step toRow cfg backends hostname st1 (ResultIn (Some result2) c2))))
             = uploads (trace st1)
               @ [rows st @ [sample_row toRow hostname result c, sample_row toRow hostname result2 c2]])"
proof -
  define st1 where "st1 = st\<lparr>rows := rows st @ [sample_row toRow hostname result c], sinks := w,
          trace := trace st @ LogDebug (Name result) (User (CPUUsage result))
                       (System (CPUUsage result)) (Total (CPUUsage result))
                     # CallUpload (rows st @ [sample_row toRow hostname result c]) # evs @ [LogError err]\<rparr>"
  have step: "processResult_step toRow cfg backends hostname st (ResultIn (Some result) c) = Running st1"
    unfolding st1_def using assms by (rule processResult_step_sample_failed)
  have again: "uploads (trace (state_of (processResult_step toRow cfg backends hostname st1 (ResultIn (Some result2) c2))))
             = uploads (trace st1)
               @ [rows st @ [sample_row toRow hostname result c, sample_row toRow hostname result2 c2]]"
    if later: "atSince c \<le> atSince c2" for result2 c2
  proof -
    have "flush_due cfg (length (rows st1) + 1) (Since (updateTime st1) (atSince c2))"
      using flush_due_later [OF assms(1) later, of "length (rows st1) + 1"]
      by (simp add: st1_def)
    from flush_due_hands [OF this] show ?thesis
      by (simp add: st1_def)
  qed
  have "rows st1 = rows st @ [sample_row toRow hostname result c]"
    "updateTime st1 = updateTime st"
    "trace st1 = trace st @ LogDebug (Name result) (User (CPUUsage result))
                       (System (CPUUsage result)) (Total (CPUUsage result))
                     # CallUpload (rows st @ [sample_row toRow hostname result c]) # evs @ [LogError err]"
    by (simp_all add: st1_def)
  with step again show ?thesis
    by blast
qed

text \<open>
  An instance: the first sample's upload fails at the second sink; the second sample is
  then handed over together with the first.
\<close>

theorem failed_upload_keeps_batch_witness:
  "flush_due cfg_one (length (rows idle0) + 1) (Since (updateTime idle0) (atSince clock1))
   \<and> upload (rows idle0 @ [sample_row (\<lambda>s. s) ''agent-7'' sample1 clock1]) [steady, flaky] (sinks idle0)
     = (Some ''Error uploading to backend file: disk full'', 2,
        [CallPut ''bigquery'' [row1] None, LogInfo ''Uploaded to storage bigquery'',
         CallPut ''file'' [row1] (Some ''disk full'')])
   \<and> (\<exists>st1. processResult_step (\<lambda>s. s) cfg_one [steady, flaky] ''agent-7'' idle0 (ResultIn (Some sample1) clock1) = Running st1
         \<and> rows st1 = [row1] \<and> updateTime st1 = 0
         \<and> uploads (trace (state_of (processResult_step (\<lambda>s. s) cfg_one [steady, flaky] ''agent-7'' st1
               (ResultIn (Some sample2) clock2))))
            = [[row1], [row1, row2]])"
proof -
  from failed_upload_keeps_batch [OF first_flush_due first_upload_fails]
  obtain st1 where
    s: "processResult_step (\<lambda>s. s) cfg_one [steady, flaky] ''agent-7'' idle0 (ResultIn (Some sample1) clock1) = Running st1"
       "rows st1 = rows idle0 @ [sample_row (\<lambda>s. s) ''agent-7'' sample1 clock1]"
       "updateTime st1 = updateTime idle0"
       "trace st1 = trace idle0 @ LogDebug (Name sample1) (User (CPUUsage sample1))
                       (System (CPUUsage sample1)) (Total (CPUUsage sample1))
                     # CallUpload (rows idle0 @ [sample_row (\<lambda>s. s) ''agent-7'' sample1 clock1])
                     # [CallPut ''bigquery'' [row1] None, LogInfo ''Uploaded to storage bigquery'',
                        CallPut ''file'' [row1] (Some ''disk full'')]
                     @ [LogError ''Error uploading to backend file: disk full'']"
       "\<And>result2 c2. atSince clock1 \<le> atSince c2 \<Longrightarrow>
           uploads (trace (state_of (processResult_step (\<lambda>s. s) cfg_one [steady, flaky] ''agent-7'' st1 (ResultIn (Some result2) c2))))
             = uploads (trace st1)
               @ [rows idle0 @ [sample_row (\<lambda>s. s) ''agent-7'' sample1 clock1, sample_row (\<lambda>s. s) ''agent-7'' result2 c2]]"
    by blast
  have "atSince clock1 \<le> atSince clock2" by (simp add: clock1_def clock2_def)
  from s(5) [OF this, of sample2] s(4)
  have "uploads (trace (state_of (processResult_step (\<lambda>s. s) cfg_one [steady, flaky] ''agent-7'' st1
               (ResultIn (Some sample2) clock2)))) = [[row1], [row1, row2]]"
    by (simp add: sample_row1 sample_row2 idle0_def)
  moreover have "rows st1 = [row1]" "updateTime st1 = 0"
    using s(2,3) by (simp_all add: sample_row1 idle0_def)
  ultimately show ?thesis
    using first_flush_due first_upload_fails s(1) by blast
qed

text \<open>
  C6, as stated, fails: the age of the batch is looked at only when a sample arrives.
  With a batch size of 500 and a maximum age of ten seconds, a sample arrives after one
  second, an event stamped 60 seconds arrives, and the context is cancelled: the only
  batch handed to the uploader is the event's, and the aggregator returns with the
  sample's row still in the open batch.
\<close>

theorem unflushed_batch_dropped:
  "processResult (\<lambda>s. s) cfg_big [steady] 0 (Inr ''agent-7'') 0
       [ResultIn (Some sample1) clock1, EventIn event1, CtxDone]
     = Returned \<lparr>rows = [row1], updateTime = 0, sinks = 1,
         trace = [LogDebug ''dcos-mesos-master.service'' 0x3FD0000000000000 0x3FE0000000000000 0x3FE8000000000000,
                  CallUpload [event1],
                  CallPut ''bigquery'' [event1] None, LogInfo ''Uploaded to storage bigquery'',
                  LogInfo ''Shutting down result processor'']\<rparr>
   \<and> Timestamp event1 - Timestamp row1 > UploadInterval cfg_big"
  by (simp add: run_simps del: digits.simps)

text \<open>
  C6, amended. A sample that arrives when the time since the batch was opened has
  reached \<^verbatim>\<open>UploadInterval\<close> is handed to the uploader with the rows of the batch. Over
  turns that receive no sample (events, cancellation, or nothing at all) the open batch
  and its opening time do not change, and every batch handed to the uploader is the
  single row of an event.
\<close>

theorem batch_flushed_only_on_sample:
  "(UploadInterval cfg \<le> Since (updateTime st) (atSince c) \<longrightarrow>
      uploads (trace (state_of (processResult_step toRow cfg backends hostname st (ResultIn (Some result) c))))
        = uploads (trace st) @ [rows st @ [sample_row toRow hostname result c]])
   \<and> ((\<forall>i \<in> set inps. \<not> is_sample i) \<longrightarrow>
      rows (state_of (processResult_loop toRow cfg backends hostname st inps)) = rows st
      \<and> updateTime (state_of (processResult_loop toRow cfg backends hostname st inps)) = updateTime st
      \<and> (\<exists>evs. uploads (trace (state_of (processResult_loop toRow cfg backends hostname st inps)))
              = uploads (trace st) @ map (\<lambda>e. [toRow e]) evs))"
proof (intro conjI impI)
  assume "UploadInterval cfg \<le> Since (updateTime st) (atSince c)"
  then have "flush_due cfg (length (rows st) + 1) (Since (updateTime st) (atSince c))"
    by (simp add: flush_due_def)
  then show "uploads (trace (state_of (processResult_step toRow cfg backends hostname st (ResultIn (Some result) c))))
        = uploads (trace st) @ [rows st @ [sample_row toRow hostname result c]]"
    by (rule flush_due_hands)
next
  assume a: "\<forall>i \<in> set inps. \<not> is_sample i"
  from loop_without_sample [OF a, of toRow cfg backends hostname st]
  show "rows (state_of (processResult_loop toRow cfg backends hostname st inps)) = rows st" 
    "updateTime (state_of (processResult_loop toRow cfg backends hostname st inps)) = updateTime st"
    "\<exists>evs. uploads (trace (state_of (processResult_loop toRow cfg backends hostname st inps)))
              = uploads (trace st) @ map (\<lambda>e. [toRow e]) evs"
    by blast+
qed

text \<open>
  An instance: an open batch of one row is handed over with a sample that arrives ten
  seconds after it was opened, and is left as it is by an event and the cancellation.
\<close>

theorem batch_flushed_only_on_sample_witness:
  "UploadInterval cfg_big \<le> Since (updateTime open1) (atSince late)
   \<and> uploads (trace (state_of (processResult_step (\<lambda>s. s) cfg_big [steady] ''agent-7'' open1 (ResultIn (Some sample2) late))))
       = [[row1, row2]]
   \<and> \<not> is_sample (EventIn event1) \<and> \<not> is_sample CtxDone
   \<and> rows (state_of (processResult_loop (\<lambda>s. s) cfg_big [steady] ''agent-7'' open1 [EventIn event1, CtxDone])) = [row1]
   \<and> updateTime (state_of (processResult_loop (\<lambda>s. s) cfg_big [steady] ''agent-7'' open1 [EventIn event1, CtxDone])) = 0
   \<and> (\<exists>evs. uploads (trace (state_of (processResult_loop (\<lambda>s. s) cfg_big [steady] ''agent-7'' open1 [EventIn event1, CtxDone])))
         = map (\<lambda>e. [e]) evs)"
proof -
  have age: "UploadInterval cfg_big \<le> Since (updateTime open1) (atSince late)"
    by (simp add: cfg_big_def open1_def late_def Since_def Sub_def maxDuration_def minDuration_def)
  have none: "\<forall>i \<in> set [EventIn event1, CtxDone]. \<not> is_sample i"
    by simp
  have r2: "sample_row (\<lambda>s. s) ''agent-7'' sample2 late = row2"
    by (simp add: sample_row_def ToBigQuerySchema_def sample2_def late_def row2_def Itoa_def digits_977 del: digits.simps)
  note t = batch_flushed_only_on_sample [of cfg_big open1 late "\<lambda>s. s" "[steady]" "''agent-7''" sample2
      "[EventIn event1, CtxDone]"]
  from t age have "uploads (trace (state_of (processResult_step (\<lambda>s. s) cfg_big [steady] ''agent-7'' open1 (ResultIn (Some sample2) late))))
       = [[row1, row2]]"
    by (simp add: r2) (simp add: open1_def)
  moreover from t none have
    "rows (state_of (processResult_loop (\<lambda>s. s) cfg_big [steady] ''agent-7'' open1 [EventIn event1, CtxDone])) = [row1]"
    "updateTime (state_of (processResult_loop (\<lambda>s. s) cfg_big [steady] ''agent-7'' open1 [EventIn event1, CtxDone])) = 0"
    "\<exists>evs. uploads (trace (state_of (processResult_loop (\<lambda>s. s) cfg_big [steady] ''agent-7'' open1 [EventIn event1, CtxDone])))
         = map (\<lambda>e. [e]) evs"
    by (simp_all add: open1_def)
  ultimately show ?thesis
    using age by simp
qed

section \<open>Properties: the dispatcher\<close>

lemmas watch_simps =
  StartWatcher_def StartWatcher_step_def processUnits_def handleUnit_def Let_def
  unit1_def unit2_def unit3_def task1_def task2_def task3_gone_def task2_late_def task1_unreceived_def
  tick_cancel_def tick_after_def tick_stuck_def tick_no_units_def tick_three_def sample1_def sample2_def

lemma sent_append: "sent (xs @ ys) = sent xs @ sent ys"
  by (induction xs rule: sent.induct) simp_all

lemma launched_append: "launched (xs @ ys) = launched xs @ launched ys"
  by (induction xs rule: launched.induct) simp_all

lemma sent_launches: "sent (map (\<lambda>t. Launch (props t)) ts) = []"
  by (induction ts) simp_all

lemma launched_launches: "launched (map (\<lambda>t. Launch (props t)) ts) = map props ts"
  by (induction ts) simp_all

text \<open>A task that finds the context cancelled returns and sends nothing.\<close>

lemma handleUnit_cancelled:
  "\<exists>es. handleUnit True c t = Finished es \<and> sent es = [] \<and> launched es = [] \<and> CloseChan \<notin> set es"
  by (cases "sampled t") (simp_all add: handleUnit_def)

lemma tasks_cancelled:
  "\<not> list_ex (\<lambda>e. e = SendPanic) (map (handleUnit True c) ts)
   \<and> \<not> list_ex (\<lambda>e. e = Stuck) (map (handleUnit True c) ts)
   \<and> sent (concat (map task_effects (map (handleUnit True c) ts))) = []
   \<and> launched (concat (map task_effects (map (handleUnit True c) ts))) = []
   \<and> CloseChan \<notin> set (concat (map task_effects (map (handleUnit True c) ts)))"
proof (induction ts)
  case Nil
  show ?case by simp
next
  case (Cons t ts)
  from handleUnit_cancelled [of c t] obtain es where
    "handleUnit True c t = Finished es" "sent es = []" "launched es = []" "CloseChan \<notin> set es"
    by blast
  with Cons show ?case
    by (simp add: sent_append launched_append)
qed

lemma processUnits_cancelled:
  assumes "cancelled st"
  shows "\<exists>err st1 new. processUnits st tick = Returned (err, st1)
       \<and> effects st1 = effects st @ GetUnits # new \<and> sent new = [] \<and> CloseChan \<notin> set new
       \<and> launched new = (case listing tick of Inl e \<Rightarrow> [] | Inr ts \<Rightarrow> map props ts)
       \<and> cancelled st1 \<and> closed st1 = closed st"
proof (cases "listing tick")
  case (Inl e)
  with assms show ?thesis
    by (simp add: processUnits_def)
next
  case (Inr ts)
  from tasks_cancelled [of "closed st" ts] assms Inr show ?thesis
    by (auto simp add: processUnits_def Let_def sent_append launched_append sent_launches launched_launches)
qed

lemma step_cancelled_closed:
  assumes "cancelled st" and "closed st"
  shows "\<exists>st' new.
       StartWatcher_step st tick
         = (if wake tick = DoneFirst then Panicked CloseOfClosedChannel st' else Running st')
       \<and> effects st' = effects st @ GetUnits # new \<and> sent new = [] \<and> CloseChan \<notin> set new
       \<and> launched new = (case listing tick of Inl e \<Rightarrow> [] | Inr ts \<Rightarrow> map props ts)
       \<and> cancelled st' \<and> closed st'"
proof -
  from processUnits_cancelled [OF assms(1), of tick] obtain err st1 new where
    p: "processUnits st tick = Returned (err, st1)"
       "effects st1 = effects st @ GetUnits # new" "sent new = []" "CloseChan \<notin> set new"
       "launched new = (case listing tick of Inl e \<Rightarrow> [] | Inr ts \<Rightarrow> map props ts)"
       "cancelled st1" "closed st1 = closed st"
    by blast
  define st2 where "st2 = (case err of Some e \<Rightarrow> st1\<lparr>effects := effects st1 @ [WatchError e]\<rparr> | None \<Rightarrow> st1)"
  define new2 where "new2 = (case err of Some e \<Rightarrow> new @ [WatchError e] | None \<Rightarrow> new)"
  have st2: "effects st2 = effects st @ GetUnits # new2" "sent new2 = []" "CloseChan \<notin> set new2"
      "launched new2 = (case listing tick of Inl e \<Rightarrow> [] | Inr ts \<Rightarrow> map props ts)"
      "cancelled st2" "closed st2"
    using p assms(2) by (auto simp: st2_def new2_def sent_append launched_append split: option.splits)
  show ?thesis
  proof (cases "wake tick")
    case TimerFirst
    then have "StartWatcher_step st tick = Running st2"
      using p(1) by (simp add: StartWatcher_step_def st2_def)
    with TimerFirst st2 show ?thesis
      by auto
  next
    case DoneFirst
    define st3 where "st3 = st2\<lparr>cancelled := True,
         effects := effects st2 @ [WatchInfo ''Shutting down watcher'']\<rparr>"
    have "StartWatcher_step st tick = Panicked CloseOfClosedChannel st3"
      using p(1) DoneFirst st2(6) by (simp add: StartWatcher_step_def st2_def st3_def Let_def)
    moreover have "effects st3 = effects st @ GetUnits # (new2 @ [WatchInfo ''Shutting down watcher''])"
      "sent (new2 @ [WatchInfo ''Shutting down watcher'']) = []"
      "CloseChan \<notin> set (new2 @ [WatchInfo ''Shutting down watcher''])"
      "launched (new2 @ [WatchInfo ''Shutting down watcher''])
         = (case listing tick of Inl e \<Rightarrow> [] | Inr ts \<Rightarrow> map props ts)"
      "cancelled st3" "closed st3"
      using st2 by (simp_all add: st3_def sent_append launched_append)
    ultimately show ?thesis
      using DoneFirst by (intro exI [of _ st3] exI [of _ "new2 @ [WatchInfo ''Shutting down watcher'']"]) simp
  qed
qed

lemma step_shutdown_open:
  assumes "wake tick = DoneFirst" and "\<not> closed st" and "processUnits st tick = Returned r"
  shows "\<exists>st' pre. StartWatcher_step st tick = Running st' \<and> cancelled st' \<and> closed st'
       \<and> effects st' = pre @ [WatchInfo ''Shutting down watcher'', CloseChan]"
proof -
  obtain err st1 where r: "r = (err, st1)" by (cases r)
  have c: "closed st1 = closed st"
    using assms(3) r by (auto simp: processUnits_def Let_def split: sum.splits if_splits)
  show ?thesis
    using assms r c by (cases err) (simp_all add: StartWatcher_step_def)
qed

text \<open>The loop has no way out but a panic or a task that never returns.\<close>

lemma step_not_returned: "StartWatcher_step st tick \<noteq> Returned st'"
  by (auto simp: StartWatcher_step_def Let_def split: outcome.splits prod.splits wake.splits option.splits)

lemma loop_not_returned: "StartWatcher_loop st sched \<noteq> Returned st'"
proof (induction sched arbitrary: st)
  case Nil
  show ?case by simp
next
  case (Cons tick sched)
  then show ?case
    using step_not_returned [of st tick]
    by (cases "StartWatcher_step st tick") simp_all
qed

text \<open>The channel is closed only once the context is cancelled, so no task sends on it.\<close>

lemma processUnits_no_send_panic:
  assumes "closed st \<longrightarrow> cancelled st"
  shows "processUnits st tick \<noteq> Panicked SendOnClosedChannel r"
proof (cases "cancelled st")
  case True
  from processUnits_cancelled [OF True, of tick] show ?thesis by auto
next
  case False
  with assms have open_chan: "\<not> closed st" by simp
  have "\<not> list_ex (\<lambda>e. e = SendPanic) (map (handleUnit (cancelled st) False) ts)" for ts
    by (induction ts) (auto simp: handleUnit_def split: sum.splits)
  with open_chan show ?thesis
    by (auto simp: processUnits_def Let_def split: sum.splits)
qed

lemma step_keeps_order:
  assumes "closed st \<longrightarrow> cancelled st" and "StartWatcher_step st tick = Running st'"
  shows "closed st' \<longrightarrow> cancelled st'"
  using assms
  by (auto simp: StartWatcher_step_def processUnits_def Let_def
      split: outcome.splits prod.splits wake.splits option.splits sum.splits if_splits)

lemma step_no_send_panic:
  assumes "closed st \<longrightarrow> cancelled st"
  shows "StartWatcher_step st tick \<noteq> Panicked SendOnClosedChannel st'"
  using processUnits_no_send_panic [OF assms, of tick]
  by (auto simp: StartWatcher_step_def Let_def split: outcome.splits prod.splits wake.splits option.splits)

lemma loop_no_send_panic:
  "closed st \<longrightarrow> cancelled st \<Longrightarrow> StartWatcher_loop st sched \<noteq> Panicked SendOnClosedChannel st'"
proof (induction sched arbitrary: st)
  case Nil
  show ?case by simp
next
  case (Cons tick sched)
  show ?case
  proof (cases "StartWatcher_step st tick")
    case (Running st1)
    with Cons.prems have "closed st1 \<longrightarrow> cancelled st1"
      by (rule step_keeps_order)
    with Cons.IH Running show ?thesis by simp
  next
    case (Panicked p st1)
    with step_no_send_panic [OF Cons.prems, of tick] show ?thesis by auto
  qed simp_all
qed

lemma tasks_close_nothing:
  "CloseChan \<notin> set (concat (map task_effects (map (handleUnit c d) ts)))"
  by (induction ts) (auto simp: handleUnit_def split: sum.splits)

lemma processUnits_blocked:
  assumes "processUnits st tick = Blocked (err, st1)"
  shows "\<exists>new. effects st1 = effects st @ new \<and> CloseChan \<notin> set new"
proof (cases "listing tick")
  case (Inl e)
  with assms show ?thesis
    by (simp add: processUnits_def)
next
  case (Inr ts)
  let ?new = "GetUnits # map (\<lambda>t. Launch (props t)) ts
      @ concat (map task_effects (map (handleUnit (cancelled st) (closed st)) ts))"
  from assms Inr have "effects st1 = effects st @ ?new"
    by (auto simp: processUnits_def Let_def split: if_splits)
  moreover have "CloseChan \<notin> set ?new"
    using tasks_close_nothing [of "cancelled st" "closed st" ts] by auto
  ultimately show ?thesis
    by blast
qed

lemma sent_tasks_without:
  assumes "sampled t = Inl e"
  shows "sent (effects (snd (state_of (processUnits st (tick\<lparr>listing := Inr (ts1 @ t # ts2)\<rparr>)))))
       = sent (effects (snd (state_of (processUnits st (tick\<lparr>listing := Inr (ts1 @ ts2)\<rparr>)))))"
proof -
  have "sent (task_effects (handleUnit (cancelled st) (closed st) t)) = []"
    using assms by (simp add: handleUnit_def)
  then show ?thesis
    by (simp add: processUnits_def Let_def sent_append sent_launches)
qed

text \<open>
  C3. The claim holds for the aggregator, which returns when its select takes the case
  of the cancelled context, and fails for the dispatcher: the case of \<^verbatim>\<open>ctx.Done()\<close> in
  \<^verbatim>\<open>StartWatcher\<close> logs and closes the channel but does not leave the loop. In the run
  below the cancellation fires during the wait of the first turn; the second turn calls
  the enumerator and starts a task again, and then panics in its second \<^verbatim>\<open>close\<close>.
\<close>

theorem tick_after_cancellation:
  "StartWatcher [tick_cancel, tick_after]
     = Panicked CloseOfClosedChannel
         \<lparr>cancelled = True, closed = True,
          effects = [GetUnits, Launch unit1, Send sample1,
                     WatchInfo ''Shutting down watcher'', CloseChan,
                     GetUnits, Launch unit2,
                     WatchInfo ''Shutting down watcher'']\<rparr>
   \<and> processResult (\<lambda>s. s) cfg_big [steady] 0 (Inr ''agent-7'') 0 [CtxDone]
     = Returned \<lparr>rows = [], updateTime = 0, sinks = 0,
         trace = [LogInfo ''Shutting down result processor'']\<rparr>"
  by (simp add: watch_simps) (simp add: processResult_def processResult_step_def)

text \<open>
  C4, as stated, fails in two places. Not every run in which the cancellation fires
  reaches the shutdown branch: in the run below one task finds the context cancelled,
  another is already in its send, which nobody receives once the aggregator has
  returned; \<^verbatim>\<open>wg.Wait()\<close> never returns and nothing is closed. And no task sends on the
  closed channel, which the amended statement proves.
\<close>

theorem blocked_before_shutdown:
  "StartWatcher [tick_stuck]
     = Blocked \<lparr>cancelled = True, closed = False,
          effects = [GetUnits, Launch unit2, Launch unit1]\<rparr>
   \<and> ctxDone task2_late \<and> \<not> received task1_unreceived"
  by (simp add: watch_simps)

text \<open>
  C4, amended. \<^verbatim>\<open>StartWatcher\<close> never returns, and no run of it panics in a send. When
  \<^verbatim>\<open>processUnits\<close> returns and the select takes the shutdown branch with the channel
  open, the loop logs, closes the channel and goes on. From then on every turn calls the
  enumerator and starts the tasks again, which send nothing; a turn whose select takes
  the timer goes on, and the first turn whose select takes the shutdown branch again
  panics in \<^verbatim>\<open>close\<close>, the channel being closed already. When \<^verbatim>\<open>processUnits\<close> is held
  up for good by a task in its send, so is \<^verbatim>\<open>StartWatcher\<close>, and the channel is not closed.
\<close>

theorem StartWatcher_after_cancellation:
  "StartWatcher sched \<noteq> Returned out
   \<and> StartWatcher sched \<noteq> Panicked SendOnClosedChannel out
   \<and> (wake tick = DoneFirst \<and> \<not> closed st \<and> processUnits st tick = Returned r \<longrightarrow>
        (\<exists>st' pre. StartWatcher_step st tick = Running st' \<and> cancelled st' \<and> closed st'
           \<and> effects st' = pre @ [WatchInfo ''Shutting down watcher'', CloseChan]))
   \<and> (cancelled st \<and> closed st \<longrightarrow>
        (\<exists>st' new.
           StartWatcher_step st tick
             = (if wake tick = DoneFirst then Panicked CloseOfClosedChannel st' else Running st')
           \<and> effects st' = effects st @ GetUnits # new \<and> sent new = [] \<and> CloseChan \<notin> set new
           \<and> launched new = (case listing tick of Inl e \<Rightarrow> [] | Inr ts \<Rightarrow> map props ts)
           \<and> cancelled st' \<and> closed st'))
   \<and> (processUnits st tick = Blocked (err, st1) \<longrightarrow>
        StartWatcher_step st tick = Blocked st1 \<and> closed st1 = closed st
        \<and> (\<exists>new. effects st1 = effects st @ new \<and> CloseChan \<notin> set new))"
proof (intro conjI impI)
  show "StartWatcher sched \<noteq> Returned out"
    unfolding StartWatcher_def by (rule loop_not_returned)
  show "StartWatcher sched \<noteq> Panicked SendOnClosedChannel out"
    unfolding StartWatcher_def by (rule loop_no_send_panic) simp
next
  assume "wake tick = DoneFirst \<and> \<not> closed st \<and> processUnits st tick = Returned r"
  then show "\<exists>st' pre. StartWatcher_step st tick = Running st' \<and> cancelled st' \<and> closed st'
           \<and> effects st' = pre @ [WatchInfo ''Shutting down watcher'', CloseChan]"
    using step_shutdown_open [of tick st r] by blast
next
  assume "cancelled st \<and> closed st"
  then show "\<exists>st' new.
           StartWatcher_step st tick
             = (if wake tick = DoneFirst then Panicked CloseOfClosedChannel st' else Running st')
           \<and> effects st' = effects st @ GetUnits # new \<and> sent new = [] \<and> CloseChan \<notin> set new
           \<and> launched new = (case listing tick of Inl e \<Rightarrow> [] | Inr ts \<Rightarrow> map props ts)
           \<and> cancelled st' \<and> closed st'"
    using step_cancelled_closed [of st tick] by blast
next
  assume b: "processUnits st tick = Blocked (err, st1)"
  then show "StartWatcher_step st tick = Blocked st1"
    by (simp add: StartWatcher_step_def)
  from b show "closed st1 = closed st"
    by (auto simp: processUnits_def Let_def split: sum.splits if_splits)
  from b show "\<exists>new. effects st1 = effects st @ new \<and> CloseChan \<notin> set new"
    by (rule processUnits_blocked)
qed

text \<open>
  An instance: the first turn takes the shutdown branch with the channel open, the
  second takes it with the channel closed; and a first turn that a task holds up.
\<close>

theorem StartWatcher_after_cancellation_witness:
  "StartWatcher [tick_cancel, tick_after] \<noteq> Returned watch_closed
   \<and> StartWatcher [tick_cancel, tick_after] \<noteq> Panicked SendOnClosedChannel watch_closed
   \<and> wake tick_cancel = DoneFirst \<and> \<not> closed watch_start
   \<and> processUnits watch_start tick_cancel
        = Returned (None, \<lparr>cancelled = False, closed = False,
                            effects = [GetUnits, Launch unit1, Send sample1]\<rparr>)
   \<and> (\<exists>st' pre. StartWatcher_step watch_start tick_cancel = Running st' \<and> cancelled st' \<and> closed st'
         \<and> effects st' = pre @ [WatchInfo ''Shutting down watcher'', CloseChan])
   \<and> cancelled watch_closed \<and> closed watch_closed
   \<and> (\<exists>st' new.
         StartWatcher_step watch_closed tick_after = Panicked CloseOfClosedChannel st'
         \<and> effects st' = effects watch_closed @ GetUnits # new \<and> sent new = [] \<and> CloseChan \<notin> set new
         \<and> launched new = [unit2] \<and> cancelled st' \<and> closed st')
   \<and> processUnits watch_start tick_stuck
        = Blocked (None, \<lparr>cancelled = True, closed = False,
                           effects = [GetUnits, Launch unit2, Launch unit1]\<rparr>)
   \<and> StartWatcher_step watch_start tick_stuck
        = Blocked \<lparr>cancelled = True, closed = False,
                    effects = [GetUnits, Launch unit2, Launch unit1]\<rparr>"
proof -
  have d: "processUnits watch_start tick_stuck
        = Blocked (None, \<lparr>cancelled = True, closed = False,
                           effects = [GetUnits, Launch unit2, Launch unit1]\<rparr>)"
    by (simp add: watch_simps watch_start_def)
  note t3 = StartWatcher_after_cancellation [where st = watch_start and tick = tick_stuck
      and err = None
      and ?st1.0 = "\<lparr>cancelled = True, closed = False,
                     effects = [GetUnits, Launch unit2, Launch unit1]\<rparr>"]
  from t3 d have third: "StartWatcher_step watch_start tick_stuck
        = Blocked \<lparr>cancelled = True, closed = False,
                    effects = [GetUnits, Launch unit2, Launch unit1]\<rparr>"
    by blast
  have a: "wake tick_cancel = DoneFirst" "\<not> closed watch_start"
    "processUnits watch_start tick_cancel
        = Returned (None, \<lparr>cancelled = False, closed = False,
                            effects = [GetUnits, Launch unit1, Send sample1]\<rparr>)"
    by (simp_all add: watch_simps watch_start_def)
  have b: "cancelled watch_closed" "closed watch_closed"
    by (simp_all add: watch_closed_def)
  have c: "wake tick_after = DoneFirst" "listing tick_after = Inr [task2_late]" "props task2_late = unit2"
    by (simp_all add: tick_after_def task2_late_def)
  note t1 = StartWatcher_after_cancellation [of "[tick_cancel, tick_after]" watch_closed tick_cancel watch_start
      "(None, \<lparr>cancelled = False, closed = False, effects = [GetUnits, Launch unit1, Send sample1]\<rparr>)"]
  note t2 = StartWatcher_after_cancellation [of "[tick_cancel, tick_after]" watch_closed tick_after watch_closed]
  from t1 a have first: "StartWatcher [tick_cancel, tick_after] \<noteq> Returned watch_closed"
    "StartWatcher [tick_cancel, tick_after] \<noteq> Panicked SendOnClosedChannel watch_closed"
    "\<exists>st' pre. StartWatcher_step watch_start tick_cancel = Running st' \<and> cancelled st' \<and> closed st'
         \<and> effects st' = pre @ [WatchInfo ''Shutting down watcher'', CloseChan]"
    by blast+
  from t2 b c have second: "\<exists>st' new.
         StartWatcher_step watch_closed tick_after = Panicked CloseOfClosedChannel st'
         \<and> effects st' = effects watch_closed @ GetUnits # new \<and> sent new = [] \<and> CloseChan \<notin> set new
         \<and> launched new = [unit2] \<and> cancelled st' \<and> closed st'"
    by simp
  from a b first second d third show ?thesis
    by blast
qed

text \<open>
  C9. When the enumerator fails, \<^verbatim>\<open>processUnits\<close> returns its error having started no
  task; the turn sends nothing, and unless its select closes the closed channel again
  (C3) the loop goes on with the next turn. When the sampler fails for a unit, the
  unit's task logs the error and sends nothing, and the statuses sent in the turn are
  those of the turn without that unit.
\<close>

theorem failures_are_isolated:
  "(listing tick = Inl err \<longrightarrow>
      processUnits st tick
        = Returned (Some (''Unable to get a list of systemd units: '' @ err),
                    st\<lparr>effects := effects st @ [GetUnits]\<rparr>)
      \<and> (wake tick = TimerFirst \<or> \<not> closed st \<longrightarrow>
           (\<exists>st' new. StartWatcher_step st tick = Running st'
              \<and> effects st' = effects st @ new \<and> sent new = [] \<and> launched new = []
              \<and> StartWatcher_loop st (tick # sched) = StartWatcher_loop st' sched)))
   \<and> (sampled t = Inl e \<longrightarrow>
      handleUnit c cl t = Finished [WatchError (''Unit '' @ PropsName (props t) @ ''. Error '' @ e)]
      \<and> sent (effects (snd (state_of (processUnits st (tick\<lparr>listing := Inr (ts1 @ t # ts2)\<rparr>)))))
          = sent (effects (snd (state_of (processUnits st (tick\<lparr>listing := Inr (ts1 @ ts2)\<rparr>))))))"
proof (intro conjI impI)
  assume l: "listing tick = Inl err"
  then show p: "processUnits st tick
        = Returned (Some (''Unable to get a list of systemd units: '' @ err),
                    st\<lparr>effects := effects st @ [GetUnits]\<rparr>)"
    by (simp add: processUnits_def)
  assume w: "wake tick = TimerFirst \<or> \<not> closed st"
  show "\<exists>st' new. StartWatcher_step st tick = Running st'
              \<and> effects st' = effects st @ new \<and> sent new = [] \<and> launched new = []
              \<and> StartWatcher_loop st (tick # sched) = StartWatcher_loop st' sched"
  proof (cases "wake tick")
    case TimerFirst
    with p have "StartWatcher_step st tick = Running (st\<lparr>effects := effects st
        @ [GetUnits, WatchError (''Unable to get a list of systemd units: '' @ err)]\<rparr>)"
      by (simp add: StartWatcher_step_def)
    then show ?thesis
      by (intro exI [of _ "st\<lparr>effects := effects st
        @ [GetUnits, WatchError (''Unable to get a list of systemd units: '' @ err)]\<rparr>"]
          exI [of _ "[GetUnits, WatchError (''Unable to get a list of systemd units: '' @ err)]"]) simp
  next
    case DoneFirst
    with w have "\<not> closed st" by simp
    with p DoneFirst have "StartWatcher_step st tick = Running (st\<lparr>cancelled := True, closed := True,
        effects := effects st
        @ [GetUnits, WatchError (''Unable to get a list of systemd units: '' @ err),
           WatchInfo ''Shutting down watcher'', CloseChan]\<rparr>)"
      by (simp add: StartWatcher_step_def)
    then show ?thesis
      by (intro exI [of _ "st\<lparr>cancelled := True, closed := True, effects := effects st
        @ [GetUnits, WatchError (''Unable to get a list of systemd units: '' @ err),
           WatchInfo ''Shutting down watcher'', CloseChan]\<rparr>"]
          exI [of _ "[GetUnits, WatchError (''Unable to get a list of systemd units: '' @ err),
           WatchInfo ''Shutting down watcher'', CloseChan]"]) simp
  qed
next
  assume s: "sampled t = Inl e"
  then show "handleUnit c cl t = Finished [WatchError (''Unit '' @ PropsName (props t) @ ''. Error '' @ e)]"
    by (simp add: handleUnit_def)
  from s show "sent (effects (snd (state_of (processUnits st (tick\<lparr>listing := Inr (ts1 @ t # ts2)\<rparr>)))))
          = sent (effects (snd (state_of (processUnits st (tick\<lparr>listing := Inr (ts1 @ ts2)\<rparr>)))))"
    by (rule sent_tasks_without)
qed

text \<open>
  An instance: a turn in which the enumerator fails is followed by a turn with three
  units, the second of which cannot be sampled.
\<close>

theorem failures_are_isolated_witness:
  "listing tick_no_units = Inl ''dbus: connection refused''
   \<and> processUnits watch_start tick_no_units
       = Returned (Some ''Unable to get a list of systemd units: dbus: connection refused'',
                   \<lparr>cancelled = False, closed = False, effects = [GetUnits]\<rparr>)
   \<and> wake tick_no_units = TimerFirst
   \<and> (\<exists>st' new. StartWatcher_step watch_start tick_no_units = Running st'
         \<and> effects st' = effects watch_start @ new \<and> sent new = [] \<and> launched new = []
         \<and> StartWatcher_loop watch_start [tick_no_units, tick_three]
             = StartWatcher_loop st' [tick_three])
   \<and> sampled task3_gone = Inl ''process does not exist''
   \<and> handleUnit False False task3_gone
       = Finished [WatchError ''Unit dcos-spartan.service. Error process does not exist'']
   \<and> sent (effects (snd (state_of (processUnits watch_start
         (tick_three\<lparr>listing := Inr ([task1] @ task3_gone # [task2])\<rparr>)))))
       = [sample1, sample2]"
proof -
  have a: "listing tick_no_units = Inl ''dbus: connection refused''" "wake tick_no_units = TimerFirst"
    by (simp_all add: tick_no_units_def)
  have b: "sampled task3_gone = Inl ''process does not exist''"
    "PropsName (props task3_gone) = ''dcos-spartan.service''"
    by (simp_all add: task3_gone_def unit3_def)
  have c: "sent (effects (snd (state_of (processUnits watch_start
         (tick_three\<lparr>listing := Inr ([task1] @ [task2])\<rparr>))))) = [sample1, sample2]"
    by (simp add: watch_simps watch_start_def)
  note t = failures_are_isolated [where tick = tick_no_units and err = "''dbus: connection refused''"
      and st = watch_start and sched = "[tick_three]"]
  note u = failures_are_isolated [where tick = tick_three and st = watch_start and t = task3_gone
      and e = "''process does not exist''" and c = False and cl = False
      and ?ts1.0 = "[task1]" and ?ts2.0 = "[task2]"]
  from t a have
    "processUnits watch_start tick_no_units
       = Returned (Some ''Unable to get a list of systemd units: dbus: connection refused'',
                   \<lparr>cancelled = False, closed = False, effects = [GetUnits]\<rparr>)"
    "\<exists>st' new. StartWatcher_step watch_start tick_no_units = Running st'
         \<and> effects st' = effects watch_start @ new \<and> sent new = [] \<and> launched new = []
         \<and> StartWatcher_loop watch_start [tick_no_units, tick_three]
             = StartWatcher_loop st' [tick_three]"
    by (simp_all add: watch_start_def)
  moreover from u b c have
    "handleUnit False False task3_gone
       = Finished [WatchError ''Unit dcos-spartan.service. Error process does not exist'']"
    "sent (effects (snd (state_of (processUnits watch_start
         (tick_three\<lparr>listing := Inr ([task1] @ task3_gone # [task2])\<rparr>)))))
       = [sample1, sample2]"
    by simp_all
  ultimately show ?thesis
    using a b(1) by simp
qed

section \<open>Properties: the configuration\<close>

lemma parseOne_flag_with_next:
  assumes f: "map_of setFlags (k # ks) = Some f" and nb: "\<not> IsBoolFlag f"
    and set: "flag_Set lib f v c = Inr c'"
    and k: "k \<noteq> CHR ''-''" and eq: "CHR ''='' \<notin> set (k # ks)"
  shows "parseOne lib c ((CHR ''-'' # k # ks) # v # rest) = Seen c' rest"
proof -
  have tw: "takeWhile (\<lambda>x. x \<noteq> CHR ''='') ks = ks"
    using eq by (auto simp: takeWhile_eq_all_conv)
  have dw: "dropWhile (\<lambda>x. x \<noteq> CHR ''='') ks = []"
    using eq by (auto simp: dropWhile_eq_Nil_conv)
  have ke: "k \<noteq> CHR ''=''"
    using eq by auto
  have v: "parseOne_value lib c f (k # ks) False [] (v # rest) = Seen c' rest"
    using nb set by (simp add: parseOne_value_def)
  have "parseOne lib c ((CHR ''-'' # k # ks) # v # rest)
      = parseOne_value lib c f (k # ks) False [] (v # rest)"
    unfolding parseOne_def Let_def
    using k ke f by (simp add: tw dw)
  with v show ?thesis by simp
qed

lemma Parse_flag_with_next:
  assumes "map_of setFlags (k # ks) = Some f" and "\<not> IsBoolFlag f"
    and "flag_Set lib f v c = Inr c'"
    and "k \<noteq> CHR ''-''" and "CHR ''='' \<notin> set (k # ks)"
  shows "Parse lib c ((CHR ''-'' # k # ks) # v # rest) = Parse lib c' rest"
  by (subst Parse.simps) (simp add: parseOne_flag_with_next [OF assms])

lemma Parse_nil: "Parse lib c [] = Inr c"
  by (subst Parse.simps) (simp add: parseOne_def)

lemma NewConfig_parsed:
  "NewConfig lib args = Inr c \<Longrightarrow>
     ParseDuration lib (FlagEventFlushInterval c) = Inr (EventUploadInterval c)"
  by (auto simp: NewConfig_def split: sum.splits)

lemma flush_buffer_flag: "map_of setFlags ''flush-buffer'' = Some EventFlushIntervalVar"
  by (simp add: setFlags_def)

lemma event_buffer_flag: "map_of setFlags ''event-buffer-size'' = Some EventBufferVar"
  by (simp add: setFlags_def)

lemma flagged_flush_buffer:
  "flagged lib [prog, ''-flush-buffer'', x]
     = Inr \<lparr> FlagVerbose = False,
            FlagProjectID = override lib ''API_SERVER_PROJECT_ID'' ''massive-bliss-781'',
            FlagDataset = override lib ''API_SERVER_DATASET'' ''dcos_performance'',
            FlagEventStreamTableName = ''event_stream'',
            FlagEventBuffer = 500,
            FlagEventFlushInterval = x,
            EventUploadInterval = 0 \<rparr>"
  unfolding flagged_def
  by (simp add: Parse_flag_with_next [OF flush_buffer_flag] Parse_nil)

lemma flagged_buffer_and_flush:
  assumes "ParseInt lib s = Inr n"
  shows "flagged lib [prog, ''-event-buffer-size'', s, ''-flush-buffer'', x]
     = Inr \<lparr> FlagVerbose = False,
            FlagProjectID = override lib ''API_SERVER_PROJECT_ID'' ''massive-bliss-781'',
            FlagDataset = override lib ''API_SERVER_DATASET'' ''dcos_performance'',
            FlagEventStreamTableName = ''event_stream'',
            FlagEventBuffer = n,
            FlagEventFlushInterval = x,
            EventUploadInterval = 0 \<rparr>"
  unfolding flagged_def using assms
  by (simp add: Parse_flag_with_next [OF flush_buffer_flag]
      Parse_flag_with_next [OF event_buffer_flag] Parse_nil)

lemma plain_int_values:
  "plain_int ''-5'' = Inr (- 5)" "plain_int ''0'' = Inr 0"
  by code_simp+

lemma plain_duration_values:
  "plain_duration ''-10s'' = Inr (- 10000000000)"
  "plain_duration ''-1h'' = Inr (- 3600000000000)"
  "plain_duration ''soon'' = Inl ''time: invalid duration soon''"
  by code_simp+

lemma plain_lib_fields:
  "ParseInt plain_lib = plain_int" "ParseDuration plain_lib = plain_duration"
  "override plain_lib key d = d"
  by (simp_all add: plain_lib_def override_def)

text \<open>
  C10, as stated, fails in its second half: a value that parses is not checked any
  further. A buffer size of -5 and a flush interval of \<^verbatim>\<open>-10s\<close> give a configuration with
  exactly these values.
\<close>

theorem nonpositive_values_accepted:
  "NewConfig plain_lib [''api-server'', ''-event-buffer-size'', ''-5'', ''-flush-buffer'', ''-10s'']
     = Inr \<lparr> FlagVerbose = False, FlagProjectID = ''massive-bliss-781'',
            FlagDataset = ''dcos_performance'', FlagEventStreamTableName = ''event_stream'',
            FlagEventBuffer = - 5, FlagEventFlushInterval = ''-10s'',
            EventUploadInterval = - 10000000000 \<rparr>"
proof -
  have "flagged plain_lib [''api-server'', ''-event-buffer-size'', ''-5'', ''-flush-buffer'', ''-10s'']
     = Inr \<lparr> FlagVerbose = False, FlagProjectID = ''massive-bliss-781'',
            FlagDataset = ''dcos_performance'', FlagEventStreamTableName = ''event_stream'',
            FlagEventBuffer = - 5, FlagEventFlushInterval = ''-10s'',
            EventUploadInterval = 0 \<rparr>"
    using flagged_buffer_and_flush [of plain_lib "''-5''" "- 5" "''api-server''" "''-10s''"]
    by (simp add: plain_lib_fields plain_int_values)
  then show ?thesis
    by (simp add: NewConfig_def plain_lib_fields plain_duration_values)
qed

text \<open>
  C10, amended. A configuration is returned only with a flush interval that parses, and
  \<^verbatim>\<open>EventUploadInterval\<close> is its parse; a flush interval given on the command line that
  does not parse makes \<^verbatim>\<open>NewConfig\<close> return the error and no configuration. A buffer
  size and a flush interval that parse are taken as they are, whatever their sign: the
  result holds the integer and the duration that the parsers returned.
\<close>

theorem NewConfig_rejects_only_unparsable:
  "(NewConfig lib args = Inr c \<longrightarrow>
      ParseDuration lib (FlagEventFlushInterval c) = Inr (EventUploadInterval c))
   \<and> (ParseDuration lib x = Inl e \<longrightarrow>
      NewConfig lib [prog, ''-flush-buffer'', x] = Inl (InvalidDuration e))
   \<and> (ParseInt lib s = Inr n \<and> ParseDuration lib x = Inr d \<longrightarrow>
      NewConfig lib [prog, ''-event-buffer-size'', s, ''-flush-buffer'', x]
        = Inr \<lparr> FlagVerbose = False,
            FlagProjectID = override lib ''API_SERVER_PROJECT_ID'' ''massive-bliss-781'',
            FlagDataset = override lib ''API_SERVER_DATASET'' ''dcos_performance'',
            FlagEventStreamTableName = ''event_stream'',
            FlagEventBuffer = n,
            FlagEventFlushInterval = x,
            EventUploadInterval = d \<rparr>)"
proof (intro conjI impI)
  assume "NewConfig lib args = Inr c"
  then show "ParseDuration lib (FlagEventFlushInterval c) = Inr (EventUploadInterval c)"
    by (rule NewConfig_parsed)
next
  assume "ParseDuration lib x = Inl e"
  then show "NewConfig lib [prog, ''-flush-buffer'', x] = Inl (InvalidDuration e)"
    by (simp add: NewConfig_def flagged_flush_buffer)
next
  assume "ParseInt lib s = Inr n \<and> ParseDuration lib x = Inr d"
  then show "NewConfig lib [prog, ''-event-buffer-size'', s, ''-flush-buffer'', x]
        = Inr \<lparr> FlagVerbose = False,
            FlagProjectID = override lib ''API_SERVER_PROJECT_ID'' ''massive-bliss-781'',
            FlagDataset = override lib ''API_SERVER_DATASET'' ''dcos_performance'',
            FlagEventStreamTableName = ''event_stream'',
            FlagEventBuffer = n,
            FlagEventFlushInterval = x,
            EventUploadInterval = d \<rparr>"
    by (simp add: NewConfig_def flagged_buffer_and_flush)
qed

text \<open>
  An instance: a buffer size of 0 and an interval of \<^verbatim>\<open>-1h\<close> are accepted, the interval
  \<^verbatim>\<open>soon\<close> is refused.
\<close>

theorem NewConfig_rejects_only_unparsable_witness:
  "ParseInt plain_lib ''0'' = Inr 0
   \<and> ParseDuration plain_lib ''-1h'' = Inr (- 3600000000000)
   \<and> NewConfig plain_lib [''api-server'', ''-event-buffer-size'', ''0'', ''-flush-buffer'', ''-1h'']
     = Inr \<lparr> FlagVerbose = False, FlagProjectID = ''massive-bliss-781'',
            FlagDataset = ''dcos_performance'', FlagEventStreamTableName = ''event_stream'',
            FlagEventBuffer = 0, FlagEventFlushInterval = ''-1h'',
            EventUploadInterval = - 3600000000000 \<rparr>
   \<and> ParseDuration plain_lib (FlagEventFlushInterval
         \<lparr> FlagVerbose = False, FlagProjectID = ''massive-bliss-781'',
            FlagDataset = ''dcos_performance'', FlagEventStreamTableName = ''event_stream'',
            FlagEventBuffer = 0, FlagEventFlushInterval = ''-1h'',
            EventUploadInterval = - 3600000000000 \<rparr>) = Inr (- 3600000000000)
   \<and> ParseDuration plain_lib ''soon'' = Inl ''time: invalid duration soon''
   \<and> NewConfig plain_lib [''api-server'', ''-flush-buffer'', ''soon'']
       = Inl (InvalidDuration ''time: invalid duration soon'')"
proof -
  have p: "ParseInt plain_lib ''0'' = Inr 0"
    "ParseDuration plain_lib ''-1h'' = Inr (- 3600000000000)"
    "ParseDuration plain_lib ''soon'' = Inl ''time: invalid duration soon''"
    by (simp_all add: plain_lib_fields plain_int_values plain_duration_values)
  note t = NewConfig_rejects_only_unparsable [of plain_lib
      "[''api-server'', ''-event-buffer-size'', ''0'', ''-flush-buffer'', ''-1h'']"
      "\<lparr> FlagVerbose = False, FlagProjectID = ''massive-bliss-781'',
            FlagDataset = ''dcos_performance'', FlagEventStreamTableName = ''event_stream'',
            FlagEventBuffer = 0, FlagEventFlushInterval = ''-1h'',
            EventUploadInterval = - 3600000000000 \<rparr>"
      "''soon''" "''time: invalid duration soon''" "''api-server''"]
  note u = NewConfig_rejects_only_unparsable [of plain_lib "[''api-server'']" _ "''-1h''" _ "''api-server''"
      "''0''" 0 "- 3600000000000"]
  from u p(1,2) have accepted:
    "NewConfig plain_lib [''api-server'', ''-event-buffer-size'', ''0'', ''-flush-buffer'', ''-1h'']
     = Inr \<lparr> FlagVerbose = False, FlagProjectID = ''massive-bliss-781'',
            FlagDataset = ''dcos_performance'', FlagEventStreamTableName = ''event_stream'',
            FlagEventBuffer = 0, FlagEventFlushInterval = ''-1h'',
            EventUploadInterval = - 3600000000000 \<rparr>"
    by (simp add: plain_lib_fields)
  from t p(3) have refused: "NewConfig plain_lib [''api-server'', ''-flush-buffer'', ''soon'']
       = Inl (InvalidDuration ''time: invalid duration soon'')"
    by blast
  from t accepted have "ParseDuration plain_lib (FlagEventFlushInterval
         \<lparr> FlagVerbose = False, FlagProjectID = ''massive-bliss-781'',
            FlagDataset = ''dcos_performance'', FlagEventStreamTableName = ''event_stream'',
            FlagEventBuffer = 0, FlagEventFlushInterval = ''-1h'',
            EventUploadInterval = - 3600000000000 \<rparr>) = Inr (- 3600000000000)"
    by simp
  with p accepted refused show ?thesis
    by simp
qed

end
